theory Spec2Isabelle
  imports Main
begin

section \<open>Errors (internal/core/domain/errors.go)\<close>

text \<open>
  The sentinel errors of package domain, the structured \<open>ValidationError\<close>, and the error
  values the services and repositories build or receive: \<open>Errorf prefix err\<close> is
  \<^verbatim>\<open>fmt.Errorf("prefix: %w", err)\<close>, \<open>ErrNoRows\<close> is \<^verbatim>\<open>sql.ErrNoRows\<close>, and
  \<open>ExternalError\<close> is any other error of a collaborator (driver, identity provider,
  strconv), given by its message.
\<close>

datatype error =
    ErrPatientNotFound
  | ErrInvalidPatientData
  | ErrDatabaseConnection
  | ErrFailedToCreatePatient
  | ErrMedicalHistoryEntryNotFound
  | ErrInvalidMedicalHistoryData
  | ErrInvalidInput
  | ErrLifestyleEntryNotFound
  | ErrForbidden
  | ValidationError string string "string list"
  | Errorf string error
  | ErrNoRows
  | ExternalError string

text \<open>\<^verbatim>\<open>errors.Is\<close>: the error itself or any error it wraps with \<^verbatim>\<open>%w\<close>.\<close>

fun errors_Is :: "error \<Rightarrow> error \<Rightarrow> bool" where
  "errors_Is (Errorf prefix inner) target =
     (Errorf prefix inner = target \<or> errors_Is inner target)"
| "errors_Is e target = (e = target)"

text \<open>\<^verbatim>\<open>errors.As(err, &validationErr)\<close> with a \<^verbatim>\<open>*domain.ValidationError\<close> target.\<close>

fun errors_As_ValidationError :: "error \<Rightarrow> bool" where
  "errors_As_ValidationError (ValidationError c m ds) = True"
| "errors_As_ValidationError (Errorf prefix inner) = errors_As_ValidationError inner"
| "errors_As_ValidationError e = False"

text \<open>The fields of a \<open>ValidationError\<close>; other errors have none.\<close>

fun Code :: "error \<Rightarrow> string option" where
  "Code (ValidationError c m ds) = Some c"
| "Code e = None"

fun Message :: "error \<Rightarrow> string option" where
  "Message (ValidationError c m ds) = Some m"
| "Message e = None"

fun Details :: "error \<Rightarrow> string list option" where
  "Details (ValidationError c m ds) = Some ds"
| "Details e = None"

text \<open>\<^verbatim>\<open>fmt.Sprint\<close> of a \<^verbatim>\<open>[]string\<close>: the elements between brackets, separated by spaces.\<close>

fun join_space :: "string list \<Rightarrow> string" where
  "join_space [] = []"
| "join_space [x] = x"
| "join_space (x # y # ys) = x @ '' '' @ join_space (y # ys)"

text \<open>The \<^verbatim>\<open>Error()\<close> method of each error value.\<close>

fun Error :: "error \<Rightarrow> string" where
  "Error ErrPatientNotFound = ''patient not found''"
| "Error ErrInvalidPatientData = ''invalid patient data''"
| "Error ErrDatabaseConnection = ''database connection error''"
| "Error ErrFailedToCreatePatient = ''failed to create patient''"
| "Error ErrMedicalHistoryEntryNotFound = ''medical history entry not found''"
| "Error ErrInvalidMedicalHistoryData = ''invalid medical history data''"
| "Error ErrInvalidInput = ''invalid input''"
| "Error ErrLifestyleEntryNotFound = ''lifestyle entry not found''"
| "Error ErrForbidden = ''forbidden''"
| "Error (ValidationError c m ds) =
     (if length ds > 0 then c @ '': '' @ m @ '' - ['' @ join_space ds @ '']''
      else c @ '': '' @ m)"
| "Error (Errorf prefix inner) = prefix @ '': '' @ Error inner"
| "Error ErrNoRows = ''sql: no rows in result set''"
| "Error (ExternalError msg) = msg"

section \<open>Time values\<close>

text \<open>
  A \<^verbatim>\<open>time.Time\<close> is modelled by its wall-clock reading: year, month (1 to 12), day of the
  month and the nanoseconds elapsed in that day. The services read a time only through
  \<^verbatim>\<open>IsZero\<close>, \<^verbatim>\<open>Year\<close> and \<^verbatim>\<open>YearDay\<close>. The zero time is January 1 of year 1, 00:00:00.
\<close>

record Time =
  t_year :: int
  t_month :: nat
  t_day :: nat
  t_nsec :: nat

definition zeroTime :: Time where
  "zeroTime = \<lparr>t_year = 1, t_month = 1, t_day = 1, t_nsec = 0\<rparr>"

definition IsZero :: "Time \<Rightarrow> bool" where
  "IsZero t = (t = zeroTime)"

definition Year :: "Time \<Rightarrow> int" where
  "Year t = t_year t"

definition isLeap :: "int \<Rightarrow> bool" where
  "isLeap y = (y mod 4 = 0 \<and> (y mod 100 \<noteq> 0 \<or> y mod 400 = 0))"

text \<open>Days of the year before the first day of month \<open>m\<close> (a month is 1 to 12).\<close>

definition daysBefore :: "int \<Rightarrow> nat \<Rightarrow> nat" where
  "daysBefore y m =
     (if 1 \<le> m \<and> m \<le> 12
      then [0, 31, 59, 90, 120, 151, 181, 212, 243, 273, 304, 334] ! (m - 1)
           + (if isLeap y \<and> m > 2 then 1 else 0)
      else 0)"

definition YearDay :: "Time \<Rightarrow> int" where
  "YearDay t = int (daysBefore (t_year t) (t_month t) + t_day t)"

section \<open>Domain model (internal/core/domain)\<close>

record LifestyleEntry =
  le_PatientLifestyleID :: int
  le_PatientID :: int
  le_LifestyleFactor :: string
  le_Value :: string
  le_StartDate :: Time
  le_EndDate :: Time
  le_CreatedAt :: Time
  le_UpdatedAt :: Time

record CreateLifestyleRequest =
  clr_LifestyleFactor :: string
  clr_Value :: string
  clr_StartDate :: Time
  clr_EndDate :: Time

record UpdateLifestyleRequest =
  ulr_LifestyleFactor :: string
  ulr_Value :: string
  ulr_StartDate :: Time
  ulr_EndDate :: Time

record MedicalHistoryEntry =
  mh_PatientMedicalHistoryID :: int
  mh_PatientID :: int
  mh_Condition :: string
  mh_DiagnosisDate :: Time
  mh_Status :: string
  mh_Details :: string
  mh_CreatedAt :: Time
  mh_UpdatedAt :: Time

record CreateMedicalHistoryRequest =
  cmr_Condition :: string
  cmr_DiagnosisDate :: Time
  cmr_Status :: string
  cmr_Details :: string

record UpdateMedicalHistoryRequest =
  umr_Condition :: string
  umr_DiagnosisDate :: Time
  umr_Status :: string
  umr_Details :: string

record Patient =
  p_PatientID :: int
  p_UserID :: int
  p_FullName :: string
  p_Age :: int
  p_DateOfBirth :: Time
  p_Sex :: string
  p_PhoneNumber :: string
  p_EmailAddress :: string
  p_PreferredCommunication :: string
  p_SocioeconomicStatus :: string
  p_GeographicLocation :: string
  p_CreatedAt :: Time
  p_UpdatedAt :: Time

record CreatePatientRequest =
  cpr_UserID :: int
  cpr_FullName :: string
  cpr_Age :: int
  cpr_DateOfBirth :: Time
  cpr_Sex :: string
  cpr_PhoneNumber :: string
  cpr_EmailAddress :: string
  cpr_PreferredCommunication :: string
  cpr_SocioeconomicStatus :: string
  cpr_GeographicLocation :: string

record UpdatePatientRequest =
  upr_FullName :: string
  upr_Age :: int
  upr_DateOfBirth :: Time
  upr_Sex :: string
  upr_PhoneNumber :: string
  upr_EmailAddress :: string
  upr_PreferredCommunication :: string
  upr_SocioeconomicStatus :: string
  upr_GeographicLocation :: string

section \<open>Injected collaborators\<close>

text \<open>
  The services receive their collaborators by injection. \<^verbatim>\<open>validator.Struct(req)\<close> takes
  any request struct: the request types form the datatype \<open>payload\<close>, and a validator is a
  function from a payload to the list of failing fields, each with the field name and the
  tag that failed (\<^verbatim>\<open>validator.ValidationErrors\<close>); the empty list is the \<^verbatim>\<open>nil\<close> error.
  The services always pass a struct, so an error of the validator is such a list, and the
  type assertion the services make on it succeeds.
\<close>

datatype payload =
    CreatePatientPayload CreatePatientRequest
  | UpdatePatientPayload UpdatePatientRequest
  | CreateMedicalHistoryPayload CreateMedicalHistoryRequest
  | UpdateMedicalHistoryPayload UpdateMedicalHistoryRequest
  | CreateLifestylePayload CreateLifestyleRequest
  | UpdateLifestylePayload UpdateLifestyleRequest

record FieldError =
  Field :: string
  Tag :: string

type_synonym Validate = "payload \<Rightarrow> FieldError list"

text \<open>
  Repositories (internal/core/ports) are interfaces over a store. The store, and whatever
  else a collaborator may touch, is the world \<open>'w\<close>: every call of a collaborator takes the
  world and returns the new one, so that a call that is made is visible in the result. A
  method returning \<^verbatim>\<open>(*T, error)\<close> yields either the error or the value.
\<close>

record 'w PatientRepository =
  repo_CreatePatient :: "Patient \<Rightarrow> 'w \<Rightarrow> (error + Patient) \<times> 'w"
  repo_GetPatient :: "int \<Rightarrow> 'w \<Rightarrow> (error + Patient) \<times> 'w"
  repo_UpdatePatient :: "int \<Rightarrow> Patient \<Rightarrow> 'w \<Rightarrow> (error + Patient) \<times> 'w"

record 'w LifestyleRepository =
  repo_CreateLifestyleEntry :: "LifestyleEntry \<Rightarrow> 'w \<Rightarrow> (error + LifestyleEntry) \<times> 'w"
  repo_GetLifestyleEntries :: "int \<Rightarrow> 'w \<Rightarrow> (error + LifestyleEntry list) \<times> 'w"
  repo_GetLifestyleEntry :: "int \<Rightarrow> 'w \<Rightarrow> (error + LifestyleEntry) \<times> 'w"
  repo_UpdateLifestyleEntry :: "int \<Rightarrow> LifestyleEntry \<Rightarrow> 'w \<Rightarrow> (error + LifestyleEntry) \<times> 'w"
  repo_DeleteLifestyleEntry :: "int \<Rightarrow> 'w \<Rightarrow> error option \<times> 'w"

record 'w MedicalHistoryRepository =
  repo_CreateMedicalHistoryEntry ::
    "MedicalHistoryEntry \<Rightarrow> 'w \<Rightarrow> (error + MedicalHistoryEntry) \<times> 'w"
  repo_GetMedicalHistoryEntries :: "int \<Rightarrow> 'w \<Rightarrow> (error + MedicalHistoryEntry list) \<times> 'w"
  repo_GetMedicalHistoryEntry :: "int \<Rightarrow> 'w \<Rightarrow> (error + MedicalHistoryEntry) \<times> 'w"
  repo_UpdateMedicalHistoryEntry ::
    "int \<Rightarrow> MedicalHistoryEntry \<Rightarrow> 'w \<Rightarrow> (error + MedicalHistoryEntry) \<times> 'w"
  repo_DeleteMedicalHistoryEntry :: "int \<Rightarrow> 'w \<Rightarrow> error option \<times> 'w"

section \<open>LifestyleService (internal/core/service/lifestyle_service.go)\<close>

text \<open>The logger is not modelled: it has no effect on what a method returns.\<close>

record 'w LifestyleService =
  ls_lifestyleRepo :: "'w LifestyleRepository"
  ls_patientRepo :: "'w PatientRepository"
  ls_validator :: Validate
  ls_authorize :: "int \<Rightarrow> 'w \<Rightarrow> bool \<times> 'w"

definition LifestyleService_CreateLifestyleEntry ::
  "'w LifestyleService \<Rightarrow> int \<Rightarrow> CreateLifestyleRequest \<Rightarrow> 'w
     \<Rightarrow> (error + LifestyleEntry) \<times> 'w" where
  "LifestyleService_CreateLifestyleEntry s patientID req w =
     (if ls_validator s (CreateLifestylePayload req) \<noteq> [] then (Inl ErrInvalidInput, w)
      else case repo_GetPatient (ls_patientRepo s) patientID w of
        (Inl err, w1) \<Rightarrow>
          (if errors_Is err ErrPatientNotFound then (Inl ErrPatientNotFound, w1)
           else (Inl (Errorf ''failed to check patient existence'' err), w1))
      | (Inr p, w1) \<Rightarrow>
          (let entry = \<lparr>le_PatientLifestyleID = 0, le_PatientID = patientID,
                 le_LifestyleFactor = clr_LifestyleFactor req, le_Value = clr_Value req,
                 le_StartDate = clr_StartDate req, le_EndDate = clr_EndDate req,
                 le_CreatedAt = zeroTime, le_UpdatedAt = zeroTime\<rparr>
           in case repo_CreateLifestyleEntry (ls_lifestyleRepo s) entry w1 of
             (Inl err, w2) \<Rightarrow> (Inl (Errorf ''create lifestyle entry error'' err), w2)
           | (Inr newEntry, w2) \<Rightarrow> (Inr newEntry, w2)))"

definition LifestyleService_GetLifestyleEntries ::
  "'w LifestyleService \<Rightarrow> int \<Rightarrow> 'w \<Rightarrow> (error + LifestyleEntry list) \<times> 'w" where
  "LifestyleService_GetLifestyleEntries s patientID w =
     (case repo_GetPatient (ls_patientRepo s) patientID w of
        (Inl err, w1) \<Rightarrow>
          (if errors_Is err ErrPatientNotFound then (Inl ErrPatientNotFound, w1)
           else (Inl (Errorf ''failed to check patient existence'' err), w1))
      | (Inr p, w1) \<Rightarrow>
          (case repo_GetLifestyleEntries (ls_lifestyleRepo s) patientID w1 of
             (Inl err, w2) \<Rightarrow> (Inl (Errorf ''get lifestyle entries error'' err), w2)
           | (Inr entries, w2) \<Rightarrow>
               (if length entries = 0 then (Inl ErrLifestyleEntryNotFound, w2)
                else (Inr entries, w2))))"

definition LifestyleService_GetLifestyleEntry ::
  "'w LifestyleService \<Rightarrow> int \<Rightarrow> 'w \<Rightarrow> (error + LifestyleEntry) \<times> 'w" where
  "LifestyleService_GetLifestyleEntry s entryID w =
     (case repo_GetLifestyleEntry (ls_lifestyleRepo s) entryID w of
        (Inl err, w1) \<Rightarrow>
          (if errors_Is err ErrLifestyleEntryNotFound then (Inl ErrLifestyleEntryNotFound, w1)
           else (Inl (Errorf ''get lifestyle entry error'' err), w1))
      | (Inr entry, w1) \<Rightarrow> (Inr entry, w1))"

text \<open>
  The field-by-field overwrite of \<^verbatim>\<open>UpdateLifestyleEntry\<close> ("Update only provided fields"):
  the loaded entry after the four conditional assignments.
\<close>

definition mergeLifestyleEntry :: "LifestyleEntry \<Rightarrow> UpdateLifestyleRequest \<Rightarrow> LifestyleEntry" where
  "mergeLifestyleEntry existingEntry req =
     (let e1 = (if ulr_LifestyleFactor req \<noteq> ''''
                then existingEntry\<lparr>le_LifestyleFactor := ulr_LifestyleFactor req\<rparr>
                else existingEntry);
          e2 = (if ulr_Value req \<noteq> '''' then e1\<lparr>le_Value := ulr_Value req\<rparr> else e1);
          e3 = (if \<not> IsZero (ulr_StartDate req) then e2\<lparr>le_StartDate := ulr_StartDate req\<rparr>
                else e2);
          e4 = (if \<not> IsZero (ulr_EndDate req) then e3\<lparr>le_EndDate := ulr_EndDate req\<rparr> else e3)
      in e4)"

definition LifestyleService_UpdateLifestyleEntry ::
  "'w LifestyleService \<Rightarrow> int \<Rightarrow> UpdateLifestyleRequest \<Rightarrow> 'w
     \<Rightarrow> (error + LifestyleEntry) \<times> 'w" where
  "LifestyleService_UpdateLifestyleEntry s entryID req w =
     (if ls_validator s (UpdateLifestylePayload req) \<noteq> [] then (Inl ErrInvalidInput, w)
      else case repo_GetLifestyleEntry (ls_lifestyleRepo s) entryID w of
        (Inl err, w1) \<Rightarrow>
          (if errors_Is err ErrLifestyleEntryNotFound then (Inl ErrLifestyleEntryNotFound, w1)
           else (Inl (Errorf ''failed to retrieve existing entry'' err), w1))
      | (Inr existingEntry, w1) \<Rightarrow>
          (case ls_authorize s (le_PatientID existingEntry) w1 of
             (False, w2) \<Rightarrow> (Inl ErrForbidden, w2)
           | (True, w2) \<Rightarrow>
               (case repo_UpdateLifestyleEntry (ls_lifestyleRepo s) entryID
                       (mergeLifestyleEntry existingEntry req) w2 of
                  (Inl err, w3) \<Rightarrow>
                    (if errors_Is err ErrLifestyleEntryNotFound
                     then (Inl ErrLifestyleEntryNotFound, w3)
                     else (Inl (Errorf ''update lifestyle entry error'' err), w3))
                | (Inr entry, w3) \<Rightarrow> (Inr entry, w3))))"

definition LifestyleService_DeleteLifestyleEntry ::
  "'w LifestyleService \<Rightarrow> int \<Rightarrow> 'w \<Rightarrow> error option \<times> 'w" where
  "LifestyleService_DeleteLifestyleEntry s entryID w =
     (case repo_GetLifestyleEntry (ls_lifestyleRepo s) entryID w of
        (Inl err, w1) \<Rightarrow>
          (if errors_Is err ErrLifestyleEntryNotFound then (Some ErrLifestyleEntryNotFound, w1)
           else (Some (Errorf ''failed to retrieve entry before deleting'' err), w1))
      | (Inr existingEntry, w1) \<Rightarrow>
          (case ls_authorize s (le_PatientID existingEntry) w1 of
             (False, w2) \<Rightarrow> (Some ErrForbidden, w2)
           | (True, w2) \<Rightarrow>
               (case repo_DeleteLifestyleEntry (ls_lifestyleRepo s) entryID w2 of
                  (Some err, w3) \<Rightarrow>
                    (if errors_Is err ErrLifestyleEntryNotFound
                     then (Some ErrLifestyleEntryNotFound, w3)
                     else (Some (Errorf ''delete lifestyle entry error'' err), w3))
                | (None, w3) \<Rightarrow> (None, w3))))"

section \<open>MedicalHistoryService (internal/core/service/medical_history_service.go)\<close>

record 'w MedicalHistoryService =
  ms_medicalHistoryRepo :: "'w MedicalHistoryRepository"
  ms_patientRepo :: "'w PatientRepository"
  ms_validate :: Validate
  ms_authorize :: "int \<Rightarrow> 'w \<Rightarrow> bool \<times> 'w"

text \<open>
  The loop over \<^verbatim>\<open>validationErrors\<close> that both the MedicalHistory and the Patient service
  run: one detail string per reported field error, in order.
\<close>

definition errorDetails :: "FieldError list \<Rightarrow> string list" where
  "errorDetails validationErrors =
     map (\<lambda>err. ''Field '' @ Field err @ '' failed validation for tag '' @ Tag err)
       validationErrors"

definition MedicalHistoryService_CreateMedicalHistoryEntry ::
  "'w MedicalHistoryService \<Rightarrow> int \<Rightarrow> CreateMedicalHistoryRequest \<Rightarrow> 'w
     \<Rightarrow> (error + MedicalHistoryEntry) \<times> 'w" where
  "MedicalHistoryService_CreateMedicalHistoryEntry s patientID req w =
     (let validationErrors = ms_validate s (CreateMedicalHistoryPayload req) in
      if validationErrors \<noteq> []
      then (Inl (ValidationError ''INVALID_MEDICAL_HISTORY_DATA'' ''Validation errors occurred''
                  (errorDetails validationErrors)), w)
      else case repo_GetPatient (ms_patientRepo s) patientID w of
        (Inl err, w1) \<Rightarrow>
          (if errors_Is err ErrPatientNotFound then (Inl ErrPatientNotFound, w1)
           else (Inl (Errorf ''failed to check patient existence'' err), w1))
      | (Inr p, w1) \<Rightarrow>
          (let entry = \<lparr>mh_PatientMedicalHistoryID = 0, mh_PatientID = patientID,
                 mh_Condition = cmr_Condition req, mh_DiagnosisDate = cmr_DiagnosisDate req,
                 mh_Status = cmr_Status req, mh_Details = cmr_Details req,
                 mh_CreatedAt = zeroTime, mh_UpdatedAt = zeroTime\<rparr>
           in case repo_CreateMedicalHistoryEntry (ms_medicalHistoryRepo s) entry w1 of
             (Inl err, w2) \<Rightarrow> (Inl (Errorf ''create medical history entry error'' err), w2)
           | (Inr createdEntry, w2) \<Rightarrow> (Inr createdEntry, w2)))"

definition MedicalHistoryService_GetMedicalHistoryEntries ::
  "'w MedicalHistoryService \<Rightarrow> int \<Rightarrow> 'w \<Rightarrow> (error + MedicalHistoryEntry list) \<times> 'w" where
  "MedicalHistoryService_GetMedicalHistoryEntries s patientID w =
     (case repo_GetPatient (ms_patientRepo s) patientID w of
        (Inl err, w1) \<Rightarrow>
          (if errors_Is err ErrPatientNotFound then (Inl ErrPatientNotFound, w1)
           else (Inl (Errorf ''failed to check patient existence'' err), w1))
      | (Inr p, w1) \<Rightarrow>
          (case repo_GetMedicalHistoryEntries (ms_medicalHistoryRepo s) patientID w1 of
             (Inl err, w2) \<Rightarrow>
               (if errors_Is err ErrMedicalHistoryEntryNotFound
                then (Inl ErrMedicalHistoryEntryNotFound, w2)
                else (Inl (Errorf ''get medical history entries error'' err), w2))
           | (Inr entries, w2) \<Rightarrow> (Inr entries, w2)))"

definition MedicalHistoryService_GetMedicalHistoryEntry ::
  "'w MedicalHistoryService \<Rightarrow> int \<Rightarrow> 'w \<Rightarrow> (error + MedicalHistoryEntry) \<times> 'w" where
  "MedicalHistoryService_GetMedicalHistoryEntry s entryID w =
     (case repo_GetMedicalHistoryEntry (ms_medicalHistoryRepo s) entryID w of
        (Inl err, w1) \<Rightarrow>
          (if errors_Is err ErrMedicalHistoryEntryNotFound
           then (Inl ErrMedicalHistoryEntryNotFound, w1)
           else (Inl (Errorf ''get medical history entry error'' err), w1))
      | (Inr entry, w1) \<Rightarrow> (Inr entry, w1))"

text \<open>The conditional assignments of \<^verbatim>\<open>UpdateMedicalHistoryEntry\<close> on the loaded entry.\<close>

definition mergeMedicalHistoryEntry ::
  "MedicalHistoryEntry \<Rightarrow> UpdateMedicalHistoryRequest \<Rightarrow> MedicalHistoryEntry" where
  "mergeMedicalHistoryEntry existingEntry req =
     (let e1 = (if umr_Condition req \<noteq> ''''
                then existingEntry\<lparr>mh_Condition := umr_Condition req\<rparr> else existingEntry);
          e2 = (if \<not> IsZero (umr_DiagnosisDate req)
                then e1\<lparr>mh_DiagnosisDate := umr_DiagnosisDate req\<rparr> else e1);
          e3 = (if umr_Status req \<noteq> '''' then e2\<lparr>mh_Status := umr_Status req\<rparr> else e2);
          e4 = (if umr_Details req \<noteq> '''' then e3\<lparr>mh_Details := umr_Details req\<rparr> else e3)
      in e4)"

definition MedicalHistoryService_UpdateMedicalHistoryEntry ::
  "'w MedicalHistoryService \<Rightarrow> int \<Rightarrow> UpdateMedicalHistoryRequest \<Rightarrow> 'w
     \<Rightarrow> (error + MedicalHistoryEntry) \<times> 'w" where
  "MedicalHistoryService_UpdateMedicalHistoryEntry s entryID req w =
     (let validationErrors = ms_validate s (UpdateMedicalHistoryPayload req) in
      if validationErrors \<noteq> []
      then (Inl (ValidationError ''INVALID_MEDICAL_HISTORY_DATA'' ''Validation errors occurred''
                  (errorDetails validationErrors)), w)
      else case repo_GetMedicalHistoryEntry (ms_medicalHistoryRepo s) entryID w of
        (Inl err, w1) \<Rightarrow>
          (if errors_Is err ErrMedicalHistoryEntryNotFound
           then (Inl ErrMedicalHistoryEntryNotFound, w1)
           else (Inl (Errorf ''failed to retrieve existing medical history entry'' err), w1))
      | (Inr existingEntry, w1) \<Rightarrow>
          (case ms_authorize s (mh_PatientID existingEntry) w1 of
             (False, w2) \<Rightarrow> (Inl ErrForbidden, w2)
           | (True, w2) \<Rightarrow>
               (case repo_UpdateMedicalHistoryEntry (ms_medicalHistoryRepo s) entryID
                       (mergeMedicalHistoryEntry existingEntry req) w2 of
                  (Inl err, w3) \<Rightarrow>
                    (Inl (Errorf ''update medical history entry error'' err), w3)
                | (Inr updatedEntry, w3) \<Rightarrow> (Inr updatedEntry, w3))))"

definition MedicalHistoryService_DeleteMedicalHistoryEntry ::
  "'w MedicalHistoryService \<Rightarrow> int \<Rightarrow> 'w \<Rightarrow> error option \<times> 'w" where
  "MedicalHistoryService_DeleteMedicalHistoryEntry s entryID w =
     (case repo_GetMedicalHistoryEntry (ms_medicalHistoryRepo s) entryID w of
        (Inl err, w1) \<Rightarrow>
          (if errors_Is err ErrMedicalHistoryEntryNotFound
           then (Some ErrMedicalHistoryEntryNotFound, w1)
           else (Some (Errorf ''failed to retrieve medical history entry before deletion'' err),
                 w1))
      | (Inr existingEntry, w1) \<Rightarrow>
          (case ms_authorize s (mh_PatientID existingEntry) w1 of
             (False, w2) \<Rightarrow> (Some ErrForbidden, w2)
           | (True, w2) \<Rightarrow>
               (case repo_DeleteMedicalHistoryEntry (ms_medicalHistoryRepo s) entryID w2 of
                  (Some err, w3) \<Rightarrow>
                    (if errors_Is err ErrMedicalHistoryEntryNotFound
                     then (Some ErrMedicalHistoryEntryNotFound, w3)
                     else (Some (Errorf ''delete medical history entry error'' err), w3))
                | (None, w3) \<Rightarrow> (None, w3))))"

section \<open>PatientService\<close>

record 'w PatientService =
  ps_patientRepo :: "'w PatientRepository"
  ps_validate :: Validate

text \<open>
  The age computed from a date of birth at the instant \<open>now\<close> (the value of
  \<^verbatim>\<open>time.Now()\<close>, passed as an argument): the difference of the years, less one when
  the day of the year of \<open>now\<close> is before that of the date of birth.
\<close>

definition expectedAge :: "Time \<Rightarrow> Time \<Rightarrow> int" where
  "expectedAge now dateOfBirth =
     (let expectedAge = Year now - Year dateOfBirth in
      if YearDay now < YearDay dateOfBirth then expectedAge - 1 else expectedAge)"

definition PatientService_CreatePatient ::
  "'w PatientService \<Rightarrow> Time \<Rightarrow> CreatePatientRequest \<Rightarrow> 'w \<Rightarrow> (error + Patient) \<times> 'w" where
  "PatientService_CreatePatient s now req w =
     (let validationErrors = ps_validate s (CreatePatientPayload req) in
      if validationErrors \<noteq> []
      then (Inl (ValidationError ''INVALID_PATIENT_DATA'' ''Validation errors occurred''
                  (errorDetails validationErrors)), w)
      else if cpr_Age req \<noteq> 0 \<and> \<not> IsZero (cpr_DateOfBirth req)
              \<and> expectedAge now (cpr_DateOfBirth req) \<noteq> cpr_Age req
      then (Inl (ValidationError ''INCONSISTENT_DATA'' ''Age and DateOfBirth are inconsistent'' []),
            w)
      else
        (let patient = \<lparr>p_PatientID = 0, p_UserID = cpr_UserID req, p_FullName = cpr_FullName req,
               p_Age = cpr_Age req, p_DateOfBirth = cpr_DateOfBirth req, p_Sex = cpr_Sex req,
               p_PhoneNumber = cpr_PhoneNumber req, p_EmailAddress = cpr_EmailAddress req,
               p_PreferredCommunication = cpr_PreferredCommunication req,
               p_SocioeconomicStatus = cpr_SocioeconomicStatus req,
               p_GeographicLocation = cpr_GeographicLocation req,
               p_CreatedAt = zeroTime, p_UpdatedAt = zeroTime\<rparr>
         in case repo_CreatePatient (ps_patientRepo s) patient w of
           (Inl err, w1) \<Rightarrow> (Inl (Errorf ''create patient error'' err), w1)
         | (Inr createdPatient, w1) \<Rightarrow> (Inr createdPatient, w1)))"

definition PatientService_GetPatient ::
  "'w PatientService \<Rightarrow> int \<Rightarrow> 'w \<Rightarrow> (error + Patient) \<times> 'w" where
  "PatientService_GetPatient s patientID w =
     (case repo_GetPatient (ps_patientRepo s) patientID w of
        (Inl err, w1) \<Rightarrow>
          (if errors_Is err ErrPatientNotFound then (Inl ErrPatientNotFound, w1)
           else (Inl (Errorf ''get patient error'' err), w1))
      | (Inr patient, w1) \<Rightarrow> (Inr patient, w1))"

text \<open>The nine conditional assignments of \<^verbatim>\<open>UpdatePatient\<close> on the loaded patient.\<close>

definition mergePatient :: "Patient \<Rightarrow> UpdatePatientRequest \<Rightarrow> Patient" where
  "mergePatient existingPatient req =
     (let p1 = (if upr_FullName req \<noteq> ''''
                then existingPatient\<lparr>p_FullName := upr_FullName req\<rparr> else existingPatient);
          p2 = (if upr_Age req \<noteq> 0 then p1\<lparr>p_Age := upr_Age req\<rparr> else p1);
          p3 = (if \<not> IsZero (upr_DateOfBirth req)
                then p2\<lparr>p_DateOfBirth := upr_DateOfBirth req\<rparr> else p2);
          p4 = (if upr_Sex req \<noteq> '''' then p3\<lparr>p_Sex := upr_Sex req\<rparr> else p3);
          p5 = (if upr_PhoneNumber req \<noteq> ''''
                then p4\<lparr>p_PhoneNumber := upr_PhoneNumber req\<rparr> else p4);
          p6 = (if upr_EmailAddress req \<noteq> ''''
                then p5\<lparr>p_EmailAddress := upr_EmailAddress req\<rparr> else p5);
          p7 = (if upr_PreferredCommunication req \<noteq> ''''
                then p6\<lparr>p_PreferredCommunication := upr_PreferredCommunication req\<rparr> else p6);
          p8 = (if upr_SocioeconomicStatus req \<noteq> ''''
                then p7\<lparr>p_SocioeconomicStatus := upr_SocioeconomicStatus req\<rparr> else p7);
          p9 = (if upr_GeographicLocation req \<noteq> ''''
                then p8\<lparr>p_GeographicLocation := upr_GeographicLocation req\<rparr> else p8)
      in p9)"

definition PatientService_UpdatePatient ::
  "'w PatientService \<Rightarrow> Time \<Rightarrow> int \<Rightarrow> UpdatePatientRequest \<Rightarrow> 'w
     \<Rightarrow> (error + Patient) \<times> 'w" where
  "PatientService_UpdatePatient s now patientID req w =
     (let validationErrors = ps_validate s (UpdatePatientPayload req) in
      if validationErrors \<noteq> []
      then (Inl (ValidationError ''INVALID_PATIENT_DATA'' ''Validation errors occurred''
                  (errorDetails validationErrors)), w)
      else if upr_Age req \<noteq> 0 \<and> \<not> IsZero (upr_DateOfBirth req)
              \<and> expectedAge now (upr_DateOfBirth req) \<noteq> upr_Age req
      then (Inl (ValidationError ''INCONSISTENT_DATA'' ''Age and DateOfBirth are inconsistent'' []),
            w)
      else case repo_GetPatient (ps_patientRepo s) patientID w of
        (Inl err, w1) \<Rightarrow> (Inl (Errorf ''failed to get existing patient'' err), w1)
      | (Inr existingPatient, w1) \<Rightarrow>
          (case repo_UpdatePatient (ps_patientRepo s) patientID
                  (mergePatient existingPatient req) w1 of
             (Inl err, w2) \<Rightarrow> (Inl (Errorf ''update patient error'' err), w2)
           | (Inr updatedPatient, w2) \<Rightarrow> (Inr updatedPatient, w2)))"

section \<open>Postgres repositories: listing the entries of a patient\<close>

text \<open>
  The rows that the generated query layer (package db) returns, with the nullable columns
  as \<^verbatim>\<open>sql.NullString\<close>, \<^verbatim>\<open>sql.NullTime\<close> and \<^verbatim>\<open>sql.NullInt32\<close>. A query is a
  parameter of the repository: it takes the world (the database) and returns the rows or
  the driver's error.
\<close>

record NullString =
  ns_String :: string
  ns_Valid :: bool

record NullTime =
  nt_Time :: Time
  nt_Valid :: bool

record NullInt32 =
  ni_Int32 :: int
  ni_Valid :: bool

record PatientLifestyle =
  pl_PatientLifestyleID :: int
  pl_PatientID :: int
  pl_LifestyleFactor :: string
  pl_Value :: NullString
  pl_StartDate :: NullTime
  pl_EndDate :: NullTime
  pl_CreatedAt :: NullTime
  pl_UpdatedAt :: NullTime

record PatientMedicalHistory =
  pmh_PatientMedicalHistoryID :: int
  pmh_PatientID :: NullInt32
  pmh_Condition :: string
  pmh_DiagnosisDate :: NullTime
  pmh_Status :: NullString
  pmh_Details :: NullString
  pmh_CreatedAt :: NullTime
  pmh_UpdatedAt :: NullTime

text \<open>The conversion \<^verbatim>\<open>int32(x)\<close> of an \<^verbatim>\<open>int\<close>: the low 32 bits, read as signed.\<close>

definition int32 :: "int \<Rightarrow> int" where
  "int32 x = (x + 2147483648) mod 4294967296 - 2147483648"

definition convertDbLifestyleEntryToDomain :: "PatientLifestyle \<Rightarrow> LifestyleEntry" where
  "convertDbLifestyleEntryToDomain dbEntry =
     \<lparr>le_PatientLifestyleID = pl_PatientLifestyleID dbEntry,
      le_PatientID = pl_PatientID dbEntry,
      le_LifestyleFactor = pl_LifestyleFactor dbEntry,
      le_Value = ns_String (pl_Value dbEntry),
      le_StartDate = nt_Time (pl_StartDate dbEntry),
      le_EndDate = nt_Time (pl_EndDate dbEntry),
      le_CreatedAt = nt_Time (pl_CreatedAt dbEntry),
      le_UpdatedAt = nt_Time (pl_UpdatedAt dbEntry)\<rparr>"

definition convertDbMedicalHistoryEntryToDomain ::
  "PatientMedicalHistory \<Rightarrow> MedicalHistoryEntry" where
  "convertDbMedicalHistoryEntryToDomain dbEntry =
     \<lparr>mh_PatientMedicalHistoryID = pmh_PatientMedicalHistoryID dbEntry,
      mh_PatientID = ni_Int32 (pmh_PatientID dbEntry),
      mh_Condition = pmh_Condition dbEntry,
      mh_DiagnosisDate = nt_Time (pmh_DiagnosisDate dbEntry),
      mh_Status = ns_String (pmh_Status dbEntry),
      mh_Details = ns_String (pmh_Details dbEntry),
      mh_CreatedAt = nt_Time (pmh_CreatedAt dbEntry),
      mh_UpdatedAt = nt_Time (pmh_UpdatedAt dbEntry)\<rparr>"

definition LifestyleRepositoryImpl_GetLifestyleEntries ::
  "(int \<Rightarrow> 'w \<Rightarrow> (error + PatientLifestyle list) \<times> 'w) \<Rightarrow> int \<Rightarrow> 'w
     \<Rightarrow> (error + LifestyleEntry list) \<times> 'w" where
  "LifestyleRepositoryImpl_GetLifestyleEntries q_GetLifestyleEntries patientID w =
     (case q_GetLifestyleEntries (int32 patientID) w of
        (Inl err, w1) \<Rightarrow> (Inl (Errorf ''get lifestyle entries error'' err), w1)
      | (Inr entries, w1) \<Rightarrow>
          (if length entries = 0 then (Inl ErrLifestyleEntryNotFound, w1)
           else (Inr (map convertDbLifestyleEntryToDomain entries), w1)))"

definition MedicalHistoryRepositoryImpl_GetMedicalHistoryEntries ::
  "(NullInt32 \<Rightarrow> 'w \<Rightarrow> (error + PatientMedicalHistory list) \<times> 'w) \<Rightarrow> int \<Rightarrow> 'w
     \<Rightarrow> (error + MedicalHistoryEntry list) \<times> 'w" where
  "MedicalHistoryRepositoryImpl_GetMedicalHistoryEntries q_GetMedicalHistoryEntries patientID w =
     (case q_GetMedicalHistoryEntries \<lparr>ni_Int32 = int32 patientID, ni_Valid = True\<rparr> w of
        (Inl err, w1) \<Rightarrow> (Inl (Errorf ''failed to get medical history entries'' err), w1)
      | (Inr dbEntries, w1) \<Rightarrow>
          (if length dbEntries = 0 then (Inl ErrMedicalHistoryEntryNotFound, w1)
           else (Inr (map convertDbMedicalHistoryEntryToDomain dbEntries), w1)))"

section \<open>HTTP handlers: listing the entries of a patient\<close>

text \<open>
  A response is the status and the JSON body given to \<^verbatim>\<open>c.JSON\<close>. \<^verbatim>\<open>strconv.Atoi\<close>
  reads an optional sign and decimal digits, and fails on anything else and on a value
  outside the 64-bit range.
\<close>

datatype body =
    ErrorResponse string
  | LifestyleEntries "LifestyleEntry list"
  | MedicalHistoryEntries "MedicalHistoryEntry list"

record Response =
  status :: nat
  body :: body

definition StatusOK :: nat where "StatusOK = 200"
definition StatusBadRequest :: nat where "StatusBadRequest = 400"
definition StatusNotFound :: nat where "StatusNotFound = 404"
definition StatusInternalServerError :: nat where "StatusInternalServerError = 500"

definition digitValue :: "char \<Rightarrow> int option" where
  "digitValue c =
     (if c = CHR ''0'' then Some 0 else if c = CHR ''1'' then Some 1
      else if c = CHR ''2'' then Some 2 else if c = CHR ''3'' then Some 3
      else if c = CHR ''4'' then Some 4 else if c = CHR ''5'' then Some 5
      else if c = CHR ''6'' then Some 6 else if c = CHR ''7'' then Some 7
      else if c = CHR ''8'' then Some 8 else if c = CHR ''9'' then Some 9
      else None)"

fun parseDigits :: "int \<Rightarrow> string \<Rightarrow> int option" where
  "parseDigits acc [] = Some acc"
| "parseDigits acc (c # cs) =
     (case digitValue c of None \<Rightarrow> None | Some d \<Rightarrow> parseDigits (acc * 10 + d) cs)"

definition Atoi :: "string \<Rightarrow> error + int" where
  "Atoi s =
     (let neg = (s \<noteq> [] \<and> hd s = CHR ''-'');
          digits = (if s \<noteq> [] \<and> (hd s = CHR ''-'' \<or> hd s = CHR ''+'') then tl s else s)
      in if digits = [] then Inl (ExternalError ''strconv.Atoi: invalid syntax'')
         else case parseDigits 0 digits of
           None \<Rightarrow> Inl (ExternalError ''strconv.Atoi: invalid syntax'')
         | Some n \<Rightarrow>
             (let v = (if neg then - n else n) in
              if v < - 9223372036854775808 \<or> 9223372036854775807 < v
              then Inl (ExternalError ''strconv.Atoi: value out of range'')
              else Inr v))"

text \<open>
  The handlers hold the service behind its port interface; the model passes the one
  method each handler calls.
\<close>

definition LifestyleHandler_GetLifestyleEntries ::
  "(int \<Rightarrow> 'w \<Rightarrow> (error + LifestyleEntry list) \<times> 'w) \<Rightarrow> string \<Rightarrow> 'w \<Rightarrow> Response \<times> 'w" where
  "LifestyleHandler_GetLifestyleEntries lifestyleSvc_GetLifestyleEntries patient_id w =
     (case Atoi patient_id of
        Inl err \<Rightarrow> (\<lparr>status = StatusBadRequest, body = ErrorResponse ''Invalid patient ID''\<rparr>, w)
      | Inr patientID \<Rightarrow>
          (case lifestyleSvc_GetLifestyleEntries patientID w of
             (Inl err, w1) \<Rightarrow>
               (if errors_Is err ErrPatientNotFound
                then (\<lparr>status = StatusNotFound, body = ErrorResponse (Error err)\<rparr>, w1)
                else if errors_Is err ErrLifestyleEntryNotFound
                then (\<lparr>status = StatusOK, body = LifestyleEntries []\<rparr>, w1)
                else (\<lparr>status = StatusInternalServerError,
                       body = ErrorResponse ''Failed to get lifestyle entries''\<rparr>, w1))
           | (Inr entries, w1) \<Rightarrow> (\<lparr>status = StatusOK, body = LifestyleEntries entries\<rparr>, w1)))"

definition MedicalHistoryHandler_GetMedicalHistoryEntries ::
  "(int \<Rightarrow> 'w \<Rightarrow> (error + MedicalHistoryEntry list) \<times> 'w) \<Rightarrow> string \<Rightarrow> 'w
     \<Rightarrow> Response \<times> 'w" where
  "MedicalHistoryHandler_GetMedicalHistoryEntries medicalHistorySvc_GetMedicalHistoryEntries
       patient_id w =
     (case Atoi patient_id of
        Inl err \<Rightarrow> (\<lparr>status = StatusBadRequest, body = ErrorResponse ''Invalid patient ID''\<rparr>, w)
      | Inr patientID \<Rightarrow>
          (case medicalHistorySvc_GetMedicalHistoryEntries patientID w of
             (Inl err, w1) \<Rightarrow>
               (if errors_Is err ErrMedicalHistoryEntryNotFound
                then (\<lparr>status = StatusNotFound, body = ErrorResponse (Error err)\<rparr>, w1)
                else if errors_Is err ErrPatientNotFound
                then (\<lparr>status = StatusNotFound, body = ErrorResponse (Error err)\<rparr>, w1)
                else (\<lparr>status = StatusInternalServerError,
                       body = ErrorResponse ''Failed to get medical history entries''\<rparr>, w1))
           | (Inr entries, w1) \<Rightarrow>
               (\<lparr>status = StatusOK, body = MedicalHistoryEntries entries\<rparr>, w1)))"

section \<open>The authorization gate (internal/auth/auth.go)\<close>

text \<open>
  \<^verbatim>\<open>fmt.Sprint\<close> of an \<^verbatim>\<open>int\<close>: the decimal digits, after a minus sign when negative.
\<close>

definition digitChar :: "nat \<Rightarrow> char" where
  "digitChar d = ''0123456789'' ! (d mod 10)"

fun showNat :: "nat \<Rightarrow> string" where
  "showNat n = (if n < 10 then [digitChar n] else showNat (n div 10) @ [digitChar (n mod 10)])"

declare showNat.simps [simp del]

definition Sprint_int :: "int \<Rightarrow> string" where
  "Sprint_int i = (if i < 0 then CHR ''-'' # showNat (nat (- i)) else showNat (nat i))"

text \<open>
  The identity provider's user carries \<^verbatim>\<open>PublicMetadata\<close>. The gate ranges over its
  values, comparing each with a string, and prints the whole of it with \<^verbatim>\<open>fmt.Sprint\<close>:
  it is a map from keys to values of any kind. It is modelled by its entries in ascending
  key order, the order in which \<^verbatim>\<open>fmt.Sprint\<close> prints a map (the result of the loop does
  not depend on the order). A value is a string, or a value of another kind given by its
  printed form: such a value is equal to no string.
\<close>

datatype meta_value = MString string | MOther string

record User =
  PublicMetadata :: "(string \<times> meta_value) list"

fun Sprint_value :: "meta_value \<Rightarrow> string" where
  "Sprint_value (MString s) = s"
| "Sprint_value (MOther printed) = printed"

definition Sprint_metadata :: "(string \<times> meta_value) list \<Rightarrow> string" where
  "Sprint_metadata md =
     ''map['' @ join_space (map (\<lambda>(k, v). k @ '':'' @ Sprint_value v) md) @ '']''"

fun HasPrefix :: "string \<Rightarrow> string \<Rightarrow> bool" where
  "HasPrefix s [] = True"
| "HasPrefix [] (p # ps) = False"
| "HasPrefix (c # cs) (p # ps) = (c = p \<and> HasPrefix cs ps)"

text \<open>\<^verbatim>\<open>strings.Contains\<close>.\<close>

fun Contains :: "string \<Rightarrow> string \<Rightarrow> bool" where
  "Contains [] substr = (substr = [])"
| "Contains (c # cs) substr = (HasPrefix (c # cs) substr \<or> Contains cs substr)"

text \<open>The loop over the values of the metadata: it returns at the first role it finds.\<close>

fun rolesLoop :: "meta_value list \<Rightarrow> bool" where
  "rolesLoop [] = False"
| "rolesLoop (roles # rest) =
     (if roles = MString ''physician'' then True
      else if roles = MString ''clerk'' then True
      else rolesLoop rest)"

text \<open>
  \<open>Authorize\<close> returns the pair \<^verbatim>\<open>(bool, error)\<close>. The call of the identity provider
  (\<^verbatim>\<open>clerk.User.GetUser\<close>) is the parameter \<open>GetUser\<close>.
\<close>

definition Authorize ::
  "(string \<Rightarrow> 'w \<Rightarrow> (error + User) \<times> 'w) \<Rightarrow> string \<Rightarrow> int \<Rightarrow> 'w
     \<Rightarrow> (bool \<times> error option) \<times> 'w" where
  "Authorize GetUser userID patientID w =
     (if Sprint_int patientID = userID then ((True, None), w)
      else case GetUser userID w of
        (Inl err, w1) \<Rightarrow> ((False, Some err), w1)
      | (Inr clerkUser, w1) \<Rightarrow>
          (if rolesLoop (map snd (PublicMetadata clerkUser)) then ((True, None), w1)
           else if Contains (Sprint_metadata (PublicMetadata clerkUser)) ''patient:read_all''
           then ((True, None), w1)
           else ((False, None), w1)))"

text \<open>
  The services take their authorization as a function \<^verbatim>\<open>func(context.Context, int) bool\<close>.
  The function that turns the gate's pair into that boolean for a caller is not part of
  the sources; it is the parameter \<open>toBool\<close> here.
\<close>

definition authorizeWith ::
  "(bool \<times> error option \<Rightarrow> bool) \<Rightarrow> (string \<Rightarrow> 'w \<Rightarrow> (error + User) \<times> 'w) \<Rightarrow> string
     \<Rightarrow> int \<Rightarrow> 'w \<Rightarrow> bool \<times> 'w" where
  "authorizeWith toBool GetUser userID patientID w =
     (case Authorize GetUser userID patientID w of (r, w1) \<Rightarrow> (toBool r, w1))"

section \<open>An in-memory store\<close>

text \<open>
  A store that implements the three repository interfaces and an identity provider over
  tables held in memory, in the manner of the mocks of the test suite. The services are
  run on it at concrete inputs.
\<close>

record World =
  patients :: "(int \<times> Patient) list"
  lifestyle :: "(int \<times> LifestyleEntry) list"
  history :: "(int \<times> MedicalHistoryEntry) list"
  users :: "(string \<times> User) list"

definition replaceRow :: "int \<Rightarrow> 'a \<Rightarrow> (int \<times> 'a) list \<Rightarrow> (int \<times> 'a) list" where
  "replaceRow k v rows = map (\<lambda>(k', v'). if k' = k then (k', v) else (k', v')) rows"

definition deleteRow :: "int \<Rightarrow> (int \<times> 'a) list \<Rightarrow> (int \<times> 'a) list" where
  "deleteRow k rows = filter (\<lambda>(k', v'). k' \<noteq> k) rows"

definition memPatientRepo :: "World PatientRepository" where
  "memPatientRepo =
     \<lparr>repo_CreatePatient = (\<lambda>p w.
        (let created = p\<lparr>p_PatientID := 1 + int (length (patients w))\<rparr>
         in (Inr created, w\<lparr>patients := patients w @ [(p_PatientID created, created)]\<rparr>))),
      repo_GetPatient = (\<lambda>patientID w.
        (case map_of (patients w) patientID of
           None \<Rightarrow> (Inl ErrPatientNotFound, w)
         | Some p \<Rightarrow> (Inr p, w))),
      repo_UpdatePatient = (\<lambda>patientID p w.
        (case map_of (patients w) patientID of
           None \<Rightarrow> (Inl ErrPatientNotFound, w)
         | Some old \<Rightarrow> (Inr p, w\<lparr>patients := replaceRow patientID p (patients w)\<rparr>)))\<rparr>"

definition memLifestyleRepo :: "World LifestyleRepository" where
  "memLifestyleRepo =
     \<lparr>repo_CreateLifestyleEntry = (\<lambda>e w.
        (let created = e\<lparr>le_PatientLifestyleID := 1 + int (length (lifestyle w))\<rparr>
         in (Inr created,
             w\<lparr>lifestyle := lifestyle w @ [(le_PatientLifestyleID created, created)]\<rparr>))),
      repo_GetLifestyleEntries = (\<lambda>patientID w.
        (let found = filter (\<lambda>e. le_PatientID e = patientID) (map snd (lifestyle w))
         in if found = [] then (Inl ErrLifestyleEntryNotFound, w) else (Inr found, w))),
      repo_GetLifestyleEntry = (\<lambda>entryID w.
        (case map_of (lifestyle w) entryID of
           None \<Rightarrow> (Inl ErrLifestyleEntryNotFound, w)
         | Some e \<Rightarrow> (Inr e, w))),
      repo_UpdateLifestyleEntry = (\<lambda>entryID e w.
        (case map_of (lifestyle w) entryID of
           None \<Rightarrow> (Inl ErrLifestyleEntryNotFound, w)
         | Some old \<Rightarrow> (Inr e, w\<lparr>lifestyle := replaceRow entryID e (lifestyle w)\<rparr>))),
      repo_DeleteLifestyleEntry = (\<lambda>entryID w.
        (None, w\<lparr>lifestyle := deleteRow entryID (lifestyle w)\<rparr>))\<rparr>"

definition memMedicalHistoryRepo :: "World MedicalHistoryRepository" where
  "memMedicalHistoryRepo =
     \<lparr>repo_CreateMedicalHistoryEntry = (\<lambda>e w.
        (let created = e\<lparr>mh_PatientMedicalHistoryID := 1 + int (length (history w))\<rparr>
         in (Inr created,
             w\<lparr>history := history w @ [(mh_PatientMedicalHistoryID created, created)]\<rparr>))),
      repo_GetMedicalHistoryEntries = (\<lambda>patientID w.
        (let found = filter (\<lambda>e. mh_PatientID e = patientID) (map snd (history w))
         in if found = [] then (Inl ErrMedicalHistoryEntryNotFound, w) else (Inr found, w))),
      repo_GetMedicalHistoryEntry = (\<lambda>entryID w.
        (case map_of (history w) entryID of
           None \<Rightarrow> (Inl ErrMedicalHistoryEntryNotFound, w)
         | Some e \<Rightarrow> (Inr e, w))),
      repo_UpdateMedicalHistoryEntry = (\<lambda>entryID e w.
        (case map_of (history w) entryID of
           None \<Rightarrow> (Inl ErrMedicalHistoryEntryNotFound, w)
         | Some old \<Rightarrow> (Inr e, w\<lparr>history := replaceRow entryID e (history w)\<rparr>))),
      repo_DeleteMedicalHistoryEntry = (\<lambda>entryID w.
        (None, w\<lparr>history := deleteRow entryID (history w)\<rparr>))\<rparr>"

text \<open>The identity provider over the table of users; an unknown user is its failure.\<close>

definition memGetUser :: "string \<Rightarrow> World \<Rightarrow> (error + User) \<times> World" where
  "memGetUser userID w =
     (case map_of (users w) userID of
        None \<Rightarrow> (Inl (ExternalError ''clerk: user lookup failed''), w)
      | Some u \<Rightarrow> (Inr u, w))"

text \<open>A validator that reports the \<^verbatim>\<open>required\<close> tags of the request structs.\<close>

definition requiredIf :: "bool \<Rightarrow> string \<Rightarrow> FieldError list" where
  "requiredIf missing name = (if missing then [\<lparr>Field = name, Tag = ''required''\<rparr>] else [])"

fun validateRequired :: Validate where
  "validateRequired (CreatePatientPayload req) =
     requiredIf (cpr_UserID req = 0) ''UserID'' @ requiredIf (cpr_FullName req = '''') ''FullName''
     @ requiredIf (IsZero (cpr_DateOfBirth req)) ''DateOfBirth''
     @ requiredIf (cpr_Sex req = '''') ''Sex''
     @ requiredIf (cpr_EmailAddress req = '''') ''EmailAddress''"
| "validateRequired (UpdatePatientPayload req) = []"
| "validateRequired (CreateMedicalHistoryPayload req) =
     requiredIf (cmr_Condition req = '''') ''Condition''
     @ requiredIf (cmr_Status req = '''') ''Status''"
| "validateRequired (UpdateMedicalHistoryPayload req) = []"
| "validateRequired (CreateLifestylePayload req) =
     requiredIf (clr_LifestyleFactor req = '''') ''LifestyleFactor''"
| "validateRequired (UpdateLifestylePayload req) = []"

section \<open>A concrete system\<close>

text \<open>
  One patient (id 2) with one lifestyle entry and one medical history entry (both id 1),
  a patient without entries (id 7), and two users known to the identity provider: user
  \<open>3\<close> without any role and user \<open>9\<close>, a physician. Today is 1 December 2024.
\<close>

definition date :: "int \<Rightarrow> nat \<Rightarrow> nat \<Rightarrow> Time" where
  "date y m d = \<lparr>t_year = y, t_month = m, t_day = d, t_nsec = 0\<rparr>"

definition today :: Time where
  "today = date 2024 12 1"

definition patient2 :: Patient where
  "patient2 =
     \<lparr>p_PatientID = 2, p_UserID = 12, p_FullName = ''John Doe'', p_Age = 30,
      p_DateOfBirth = date 1994 6 15, p_Sex = ''Male'', p_PhoneNumber = '''',
      p_EmailAddress = ''john.doe@example.com'', p_PreferredCommunication = '''',
      p_SocioeconomicStatus = '''', p_GeographicLocation = '''',
      p_CreatedAt = date 2024 1 10, p_UpdatedAt = date 2024 1 10\<rparr>"

definition patient7 :: Patient where
  "patient7 = patient2\<lparr>p_PatientID := 7, p_UserID := 17, p_FullName := ''Jane Roe'',
     p_EmailAddress := ''jane.roe@example.com''\<rparr>"

definition entry1 :: LifestyleEntry where
  "entry1 =
     \<lparr>le_PatientLifestyleID = 1, le_PatientID = 2, le_LifestyleFactor = ''Smoking'',
      le_Value = ''No'', le_StartDate = zeroTime, le_EndDate = zeroTime,
      le_CreatedAt = date 2024 2 1, le_UpdatedAt = date 2024 2 1\<rparr>"

definition hist1 :: MedicalHistoryEntry where
  "hist1 =
     \<lparr>mh_PatientMedicalHistoryID = 1, mh_PatientID = 2, mh_Condition = ''Hypertension'',
      mh_DiagnosisDate = date 2020 5 20, mh_Status = ''Active'', mh_Details = '''',
      mh_CreatedAt = date 2024 2 1, mh_UpdatedAt = date 2024 2 1\<rparr>"

definition world0 :: World where
  "world0 =
     \<lparr>patients = [(2, patient2), (7, patient7)],
      lifestyle = [(1, entry1)],
      history = [(1, hist1)],
      users = [(''3'', \<lparr>PublicMetadata = []\<rparr>),
               (''9'', \<lparr>PublicMetadata = [(''role'', MString ''physician'')]\<rparr>)]\<rparr>"

text \<open>
  The services as a caller with identity \<open>userID\<close> meets them: the authorization function
  is the gate for that caller, keeping the boolean of its result.
\<close>

definition lifestyleSvc :: "string \<Rightarrow> World LifestyleService" where
  "lifestyleSvc userID =
     \<lparr>ls_lifestyleRepo = memLifestyleRepo, ls_patientRepo = memPatientRepo,
      ls_validator = validateRequired, ls_authorize = authorizeWith fst memGetUser userID\<rparr>"

definition medicalHistorySvc :: "string \<Rightarrow> World MedicalHistoryService" where
  "medicalHistorySvc userID =
     \<lparr>ms_medicalHistoryRepo = memMedicalHistoryRepo, ms_patientRepo = memPatientRepo,
      ms_validate = validateRequired, ms_authorize = authorizeWith fst memGetUser userID\<rparr>"

definition patientSvc :: "World PatientService" where
  "patientSvc = \<lparr>ps_patientRepo = memPatientRepo, ps_validate = validateRequired\<rparr>"

text \<open>The update requests with every field at its zero value.\<close>

definition emptyUpdateLifestyleRequest :: UpdateLifestyleRequest where
  "emptyUpdateLifestyleRequest =
     \<lparr>ulr_LifestyleFactor = '''', ulr_Value = '''', ulr_StartDate = zeroTime,
      ulr_EndDate = zeroTime\<rparr>"

definition emptyUpdateMedicalHistoryRequest :: UpdateMedicalHistoryRequest where
  "emptyUpdateMedicalHistoryRequest =
     \<lparr>umr_Condition = '''', umr_DiagnosisDate = zeroTime, umr_Status = '''', umr_Details = ''''\<rparr>"

definition emptyUpdatePatientRequest :: UpdatePatientRequest where
  "emptyUpdatePatientRequest =
     \<lparr>upr_FullName = '''', upr_Age = 0, upr_DateOfBirth = zeroTime, upr_Sex = '''',
      upr_PhoneNumber = '''', upr_EmailAddress = '''', upr_PreferredCommunication = '''',
      upr_SocioeconomicStatus = '''', upr_GeographicLocation = ''''\<rparr>"

text \<open>
  The two listing queries over the in-memory tables (\<^verbatim>\<open>SELECT ... WHERE patient_id = $1\<close>),
  returning rows as the query layer does, and the repositories whose listing method is the
  Postgres implementation over them.
\<close>

definition toNullString :: "string \<Rightarrow> NullString" where
  "toNullString s = \<lparr>ns_String = s, ns_Valid = (s \<noteq> '''')\<rparr>"

definition toNullTime :: "Time \<Rightarrow> NullTime" where
  "toNullTime t = \<lparr>nt_Time = t, nt_Valid = (\<not> IsZero t)\<rparr>"

definition lifestyleRow :: "LifestyleEntry \<Rightarrow> PatientLifestyle" where
  "lifestyleRow e =
     \<lparr>pl_PatientLifestyleID = le_PatientLifestyleID e, pl_PatientID = le_PatientID e,
      pl_LifestyleFactor = le_LifestyleFactor e, pl_Value = toNullString (le_Value e),
      pl_StartDate = toNullTime (le_StartDate e), pl_EndDate = toNullTime (le_EndDate e),
      pl_CreatedAt = toNullTime (le_CreatedAt e), pl_UpdatedAt = toNullTime (le_UpdatedAt e)\<rparr>"

definition historyRow :: "MedicalHistoryEntry \<Rightarrow> PatientMedicalHistory" where
  "historyRow e =
     \<lparr>pmh_PatientMedicalHistoryID = mh_PatientMedicalHistoryID e,
      pmh_PatientID = \<lparr>ni_Int32 = mh_PatientID e, ni_Valid = True\<rparr>,
      pmh_Condition = mh_Condition e, pmh_DiagnosisDate = toNullTime (mh_DiagnosisDate e),
      pmh_Status = toNullString (mh_Status e), pmh_Details = toNullString (mh_Details e),
      pmh_CreatedAt = toNullTime (mh_CreatedAt e), pmh_UpdatedAt = toNullTime (mh_UpdatedAt e)\<rparr>"

definition memQ_GetLifestyleEntries ::
  "int \<Rightarrow> World \<Rightarrow> (error + PatientLifestyle list) \<times> World" where
  "memQ_GetLifestyleEntries patientID w =
     (Inr (map lifestyleRow (filter (\<lambda>e. le_PatientID e = patientID) (map snd (lifestyle w)))),
      w)"

definition memQ_GetMedicalHistoryEntries ::
  "NullInt32 \<Rightarrow> World \<Rightarrow> (error + PatientMedicalHistory list) \<times> World" where
  "memQ_GetMedicalHistoryEntries patientID w =
     (Inr (map historyRow
             (filter (\<lambda>e. ni_Valid patientID \<and> mh_PatientID e = ni_Int32 patientID)
                (map snd (history w)))),
      w)"

definition pgLifestyleSvc :: "string \<Rightarrow> World LifestyleService" where
  "pgLifestyleSvc userID =
     (lifestyleSvc userID)
       \<lparr>ls_lifestyleRepo := memLifestyleRepo
          \<lparr>repo_GetLifestyleEntries :=
             LifestyleRepositoryImpl_GetLifestyleEntries memQ_GetLifestyleEntries\<rparr>\<rparr>"

definition pgMedicalHistorySvc :: "string \<Rightarrow> World MedicalHistoryService" where
  "pgMedicalHistorySvc userID =
     (medicalHistorySvc userID)
       \<lparr>ms_medicalHistoryRepo := memMedicalHistoryRepo
          \<lparr>repo_GetMedicalHistoryEntries :=
             MedicalHistoryRepositoryImpl_GetMedicalHistoryEntries
               memQ_GetMedicalHistoryEntries\<rparr>\<rparr>"

text \<open>The code of the error that a service method returned, if it returned one with a code.\<close>

definition resultCode :: "(error + 'a) \<times> 'w \<Rightarrow> string option" where
  "resultCode r = (case fst r of Inl err \<Rightarrow> Code err | Inr v \<Rightarrow> None)"

text \<open>
  Requests for the concrete system. The create request is for a patient born on
  25 December 1994; on 1 December 2024 the age computed from that date is 29.
\<close>

definition createPatientRequest :: "int \<Rightarrow> CreatePatientRequest" where
  "createPatientRequest age =
     \<lparr>cpr_UserID = 21, cpr_FullName = ''Ann Lee'', cpr_Age = age,
      cpr_DateOfBirth = date 1994 12 25, cpr_Sex = ''Female'', cpr_PhoneNumber = '''',
      cpr_EmailAddress = ''ann.lee@example.com'', cpr_PreferredCommunication = '''',
      cpr_SocioeconomicStatus = '''', cpr_GeographicLocation = ''''\<rparr>"

definition updateAgeOnly :: "int \<Rightarrow> UpdatePatientRequest" where
  "updateAgeOnly age = emptyUpdatePatientRequest\<lparr>upr_Age := age\<rparr>"

definition updateDateOfBirthOnly :: "Time \<Rightarrow> UpdatePatientRequest" where
  "updateDateOfBirthOnly dateOfBirth = emptyUpdatePatientRequest\<lparr>upr_DateOfBirth := dateOfBirth\<rparr>"



text \<open>
  Create requests that fail validation: a lifestyle request without its factor, a medical
  history request without condition and status, a patient request without name and sex.
\<close>

definition emptyCreateLifestyleRequest :: CreateLifestyleRequest where
  "emptyCreateLifestyleRequest =
     \<lparr>clr_LifestyleFactor = '''', clr_Value = '''', clr_StartDate = zeroTime,
      clr_EndDate = zeroTime\<rparr>"

definition emptyCreateMedicalHistoryRequest :: CreateMedicalHistoryRequest where
  "emptyCreateMedicalHistoryRequest =
     \<lparr>cmr_Condition = '''', cmr_DiagnosisDate = zeroTime, cmr_Status = '''', cmr_Details = ''''\<rparr>"

definition namelessCreatePatientRequest :: CreatePatientRequest where
  "namelessCreatePatientRequest = (createPatientRequest 29)\<lparr>cpr_FullName := '''', cpr_Sex := ''''\<rparr>"

section \<open>Properties\<close>

lemmas fixture_defs =
  world0_def lifestyleSvc_def medicalHistorySvc_def patientSvc_def memPatientRepo_def
  memLifestyleRepo_def memMedicalHistoryRepo_def memGetUser_def patient2_def patient7_def
  entry1_def hist1_def date_def today_def pgLifestyleSvc_def pgMedicalHistorySvc_def
  memQ_GetLifestyleEntries_def memQ_GetMedicalHistoryEntries_def

subsection \<open>A list that is returned without error is not empty\<close>

text \<open>
  Claim C10. Whenever the service method \<open>GetLifestyleEntries\<close> or the repository method
  \<open>GetMedicalHistoryEntries\<close> returns without error, the list it returns is not empty:
  a result of length zero (from the lifestyle repository, from the medical history query)
  is turned into the entry-not-found error of the resource, so a caller never sees a
  successful empty list.
\<close>

theorem successful_list_is_nonempty:
  "(LifestyleService_GetLifestyleEntries s patientID w = (Inr entries, w') \<longrightarrow> entries \<noteq> [])
   \<and> (repo_GetPatient (ls_patientRepo s) patientID w = (Inr p, w1)
        \<and> repo_GetLifestyleEntries (ls_lifestyleRepo s) patientID w1 = (Inr [], w2)
      \<longrightarrow> LifestyleService_GetLifestyleEntries s patientID w
            = (Inl ErrLifestyleEntryNotFound, w2))
   \<and> (MedicalHistoryRepositoryImpl_GetMedicalHistoryEntries q ownerID v = (Inr hs, v')
      \<longrightarrow> hs \<noteq> [])
   \<and> (q \<lparr>ni_Int32 = int32 ownerID, ni_Valid = True\<rparr> v = (Inr [], v1)
      \<longrightarrow> MedicalHistoryRepositoryImpl_GetMedicalHistoryEntries q ownerID v
            = (Inl ErrMedicalHistoryEntryNotFound, v1))"
  by (auto simp: LifestyleService_GetLifestyleEntries_def
        MedicalHistoryRepositoryImpl_GetMedicalHistoryEntries_def
      split: prod.splits sum.splits if_splits)

theorem successful_list_is_nonempty_witness:
  "LifestyleService_GetLifestyleEntries (lifestyleSvc ''3'') 2 world0 = (Inr [entry1], world0)
   \<and> [entry1] \<noteq> []
   \<and> LifestyleService_GetLifestyleEntries
        ((lifestyleSvc ''3'')
           \<lparr>ls_lifestyleRepo := memLifestyleRepo
              \<lparr>repo_GetLifestyleEntries := (\<lambda>patientID w. (Inr [], w))\<rparr>\<rparr>) 7 world0
       = (Inl ErrLifestyleEntryNotFound, world0)
   \<and> MedicalHistoryRepositoryImpl_GetMedicalHistoryEntries memQ_GetMedicalHistoryEntries 2 world0
       = (Inr [hist1], world0)
   \<and> [hist1] \<noteq> []
   \<and> MedicalHistoryRepositoryImpl_GetMedicalHistoryEntries memQ_GetMedicalHistoryEntries 7 world0
       = (Inl ErrMedicalHistoryEntryNotFound, world0)"
  using
    successful_list_is_nonempty [of "lifestyleSvc ''3''" 2 world0 "[entry1]" world0 patient2
      world0 world0 memQ_GetMedicalHistoryEntries 2 world0 "[hist1]" world0 world0]
    successful_list_is_nonempty [of
      "(lifestyleSvc ''3'')
         \<lparr>ls_lifestyleRepo := memLifestyleRepo
            \<lparr>repo_GetLifestyleEntries := (\<lambda>patientID w. (Inr [], w))\<rparr>\<rparr>"
      7 world0 "[]" world0 patient7 world0 world0 memQ_GetMedicalHistoryEntries 7 world0 "[]"
      world0 world0]
  by (simp add: fixture_defs LifestyleService_GetLifestyleEntries_def
        MedicalHistoryRepositoryImpl_GetMedicalHistoryEntries_def int32_def
        convertDbMedicalHistoryEntryToDomain_def historyRow_def toNullString_def toNullTime_def)

subsection \<open>The update merge\<close>

lemma mergeLifestyleEntry_fields:
  "mergeLifestyleEntry e r =
     \<lparr>le_PatientLifestyleID = le_PatientLifestyleID e,
      le_PatientID = le_PatientID e,
      le_LifestyleFactor =
        (if ulr_LifestyleFactor r \<noteq> '''' then ulr_LifestyleFactor r else le_LifestyleFactor e),
      le_Value = (if ulr_Value r \<noteq> '''' then ulr_Value r else le_Value e),
      le_StartDate = (if \<not> IsZero (ulr_StartDate r) then ulr_StartDate r else le_StartDate e),
      le_EndDate = (if \<not> IsZero (ulr_EndDate r) then ulr_EndDate r else le_EndDate e),
      le_CreatedAt = le_CreatedAt e,
      le_UpdatedAt = le_UpdatedAt e\<rparr>"
  by (simp add: mergeLifestyleEntry_def Let_def)

lemma mergeMedicalHistoryEntry_fields:
  "mergeMedicalHistoryEntry h r =
     \<lparr>mh_PatientMedicalHistoryID = mh_PatientMedicalHistoryID h,
      mh_PatientID = mh_PatientID h,
      mh_Condition = (if umr_Condition r \<noteq> '''' then umr_Condition r else mh_Condition h),
      mh_DiagnosisDate =
        (if \<not> IsZero (umr_DiagnosisDate r) then umr_DiagnosisDate r else mh_DiagnosisDate h),
      mh_Status = (if umr_Status r \<noteq> '''' then umr_Status r else mh_Status h),
      mh_Details = (if umr_Details r \<noteq> '''' then umr_Details r else mh_Details h),
      mh_CreatedAt = mh_CreatedAt h,
      mh_UpdatedAt = mh_UpdatedAt h\<rparr>"
  by (simp add: mergeMedicalHistoryEntry_def Let_def)

lemma mergePatient_fields:
  "mergePatient p r =
     \<lparr>p_PatientID = p_PatientID p,
      p_UserID = p_UserID p,
      p_FullName = (if upr_FullName r \<noteq> '''' then upr_FullName r else p_FullName p),
      p_Age = (if upr_Age r \<noteq> 0 then upr_Age r else p_Age p),
      p_DateOfBirth =
        (if \<not> IsZero (upr_DateOfBirth r) then upr_DateOfBirth r else p_DateOfBirth p),
      p_Sex = (if upr_Sex r \<noteq> '''' then upr_Sex r else p_Sex p),
      p_PhoneNumber = (if upr_PhoneNumber r \<noteq> '''' then upr_PhoneNumber r else p_PhoneNumber p),
      p_EmailAddress =
        (if upr_EmailAddress r \<noteq> '''' then upr_EmailAddress r else p_EmailAddress p),
      p_PreferredCommunication =
        (if upr_PreferredCommunication r \<noteq> '''' then upr_PreferredCommunication r
         else p_PreferredCommunication p),
      p_SocioeconomicStatus =
        (if upr_SocioeconomicStatus r \<noteq> '''' then upr_SocioeconomicStatus r
         else p_SocioeconomicStatus p),
      p_GeographicLocation =
        (if upr_GeographicLocation r \<noteq> '''' then upr_GeographicLocation r
         else p_GeographicLocation p),
      p_CreatedAt = p_CreatedAt p,
      p_UpdatedAt = p_UpdatedAt p\<rparr>"
  by (simp add: mergePatient_def Let_def)

lemma merge_empty_request:
  "mergeLifestyleEntry e emptyUpdateLifestyleRequest = e"
  "mergeMedicalHistoryEntry h emptyUpdateMedicalHistoryRequest = h"
  "mergePatient p emptyUpdatePatientRequest = p"
  by (simp_all add: mergeLifestyleEntry_def mergeMedicalHistoryEntry_def mergePatient_def
      emptyUpdateLifestyleRequest_def emptyUpdateMedicalHistoryRequest_def
      emptyUpdatePatientRequest_def IsZero_def)

lemma UpdateLifestyleEntry_persists_merge:
  assumes "ls_validator s (UpdateLifestylePayload req) = []"
    and "repo_GetLifestyleEntry (ls_lifestyleRepo s) entryID w = (Inr e, w1)"
    and "ls_authorize s (le_PatientID e) w1 = (True, w2)"
    and "repo_UpdateLifestyleEntry (ls_lifestyleRepo s) entryID (mergeLifestyleEntry e req) w2
           = (Inr stored, w3)"
  shows "LifestyleService_UpdateLifestyleEntry s entryID req w = (Inr stored, w3)"
  using assms by (simp add: LifestyleService_UpdateLifestyleEntry_def)

lemma UpdateMedicalHistoryEntry_persists_merge:
  assumes "ms_validate s (UpdateMedicalHistoryPayload req) = []"
    and "repo_GetMedicalHistoryEntry (ms_medicalHistoryRepo s) entryID w = (Inr h, w1)"
    and "ms_authorize s (mh_PatientID h) w1 = (True, w2)"
    and "repo_UpdateMedicalHistoryEntry (ms_medicalHistoryRepo s) entryID
           (mergeMedicalHistoryEntry h req) w2 = (Inr stored, w3)"
  shows "MedicalHistoryService_UpdateMedicalHistoryEntry s entryID req w = (Inr stored, w3)"
  using assms by (simp add: MedicalHistoryService_UpdateMedicalHistoryEntry_def)

lemma UpdatePatient_persists_merge:
  assumes "ps_validate s (UpdatePatientPayload req) = []"
    and "upr_Age req = 0 \<or> IsZero (upr_DateOfBirth req)
           \<or> expectedAge now (upr_DateOfBirth req) = upr_Age req"
    and "repo_GetPatient (ps_patientRepo s) patientID w = (Inr p, w1)"
    and "repo_UpdatePatient (ps_patientRepo s) patientID (mergePatient p req) w1
           = (Inr stored, w2)"
  shows "PatientService_UpdatePatient s now patientID req w = (Inr stored, w2)"
  using assms by (auto simp: PatientService_UpdatePatient_def)

text \<open>
  Claim C6. For each of the three stored entities (lifestyle entry, medical history entry,
  patient), the merge of an update request into the loaded entity leaves the entity as it
  is when every field of the request has its zero value; and for every request, a field of
  the request that is not zero replaces the corresponding field of the entity and no
  other, while a zero field of the request leaves the stored field as it was. The merge
  does not touch the identifiers, the owner or the timestamps (\<open>updated_at\<close> is set when the
  row is persisted). The merged entity is what each Update method hands to the repository.
\<close>

theorem update_merge_is_optional_overwrite:
  "mergeLifestyleEntry e emptyUpdateLifestyleRequest = e
   \<and> mergeMedicalHistoryEntry h emptyUpdateMedicalHistoryRequest = h
   \<and> mergePatient p emptyUpdatePatientRequest = p
   \<and> mergeLifestyleEntry e lr =
       \<lparr>le_PatientLifestyleID = le_PatientLifestyleID e,
        le_PatientID = le_PatientID e,
        le_LifestyleFactor =
          (if ulr_LifestyleFactor lr \<noteq> '''' then ulr_LifestyleFactor lr
           else le_LifestyleFactor e),
        le_Value = (if ulr_Value lr \<noteq> '''' then ulr_Value lr else le_Value e),
        le_StartDate =
          (if \<not> IsZero (ulr_StartDate lr) then ulr_StartDate lr else le_StartDate e),
        le_EndDate = (if \<not> IsZero (ulr_EndDate lr) then ulr_EndDate lr else le_EndDate e),
        le_CreatedAt = le_CreatedAt e,
        le_UpdatedAt = le_UpdatedAt e\<rparr>
   \<and> mergeMedicalHistoryEntry h hr =
       \<lparr>mh_PatientMedicalHistoryID = mh_PatientMedicalHistoryID h,
        mh_PatientID = mh_PatientID h,
        mh_Condition = (if umr_Condition hr \<noteq> '''' then umr_Condition hr else mh_Condition h),
        mh_DiagnosisDate =
          (if \<not> IsZero (umr_DiagnosisDate hr) then umr_DiagnosisDate hr
           else mh_DiagnosisDate h),
        mh_Status = (if umr_Status hr \<noteq> '''' then umr_Status hr else mh_Status h),
        mh_Details = (if umr_Details hr \<noteq> '''' then umr_Details hr else mh_Details h),
        mh_CreatedAt = mh_CreatedAt h,
        mh_UpdatedAt = mh_UpdatedAt h\<rparr>
   \<and> mergePatient p pr =
       \<lparr>p_PatientID = p_PatientID p,
        p_UserID = p_UserID p,
        p_FullName = (if upr_FullName pr \<noteq> '''' then upr_FullName pr else p_FullName p),
        p_Age = (if upr_Age pr \<noteq> 0 then upr_Age pr else p_Age p),
        p_DateOfBirth =
          (if \<not> IsZero (upr_DateOfBirth pr) then upr_DateOfBirth pr else p_DateOfBirth p),
        p_Sex = (if upr_Sex pr \<noteq> '''' then upr_Sex pr else p_Sex p),
        p_PhoneNumber =
          (if upr_PhoneNumber pr \<noteq> '''' then upr_PhoneNumber pr else p_PhoneNumber p),
        p_EmailAddress =
          (if upr_EmailAddress pr \<noteq> '''' then upr_EmailAddress pr else p_EmailAddress p),
        p_PreferredCommunication =
          (if upr_PreferredCommunication pr \<noteq> '''' then upr_PreferredCommunication pr
           else p_PreferredCommunication p),
        p_SocioeconomicStatus =
          (if upr_SocioeconomicStatus pr \<noteq> '''' then upr_SocioeconomicStatus pr
           else p_SocioeconomicStatus p),
        p_GeographicLocation =
          (if upr_GeographicLocation pr \<noteq> '''' then upr_GeographicLocation pr
           else p_GeographicLocation p),
        p_CreatedAt = p_CreatedAt p,
        p_UpdatedAt = p_UpdatedAt p\<rparr>
   \<and> (ls_validator ls (UpdateLifestylePayload lr) = []
        \<and> repo_GetLifestyleEntry (ls_lifestyleRepo ls) entryID w = (Inr e, w1)
        \<and> ls_authorize ls (le_PatientID e) w1 = (True, w2)
        \<and> repo_UpdateLifestyleEntry (ls_lifestyleRepo ls) entryID (mergeLifestyleEntry e lr) w2
            = (Inr e', w3)
      \<longrightarrow> LifestyleService_UpdateLifestyleEntry ls entryID lr w = (Inr e', w3))
   \<and> (ms_validate ms (UpdateMedicalHistoryPayload hr) = []
        \<and> repo_GetMedicalHistoryEntry (ms_medicalHistoryRepo ms) entryID w = (Inr h, w1)
        \<and> ms_authorize ms (mh_PatientID h) w1 = (True, w2)
        \<and> repo_UpdateMedicalHistoryEntry (ms_medicalHistoryRepo ms) entryID
             (mergeMedicalHistoryEntry h hr) w2 = (Inr h', w3)
      \<longrightarrow> MedicalHistoryService_UpdateMedicalHistoryEntry ms entryID hr w = (Inr h', w3))
   \<and> (ps_validate ps (UpdatePatientPayload pr) = []
        \<and> (upr_Age pr = 0 \<or> IsZero (upr_DateOfBirth pr)
             \<or> expectedAge now (upr_DateOfBirth pr) = upr_Age pr)
        \<and> repo_GetPatient (ps_patientRepo ps) patientID w = (Inr p, w1)
        \<and> repo_UpdatePatient (ps_patientRepo ps) patientID (mergePatient p pr) w1 = (Inr p', w2)
      \<longrightarrow> PatientService_UpdatePatient ps now patientID pr w = (Inr p', w2))"
proof -
  have svc1: "ls_validator ls (UpdateLifestylePayload lr) = []
        \<and> repo_GetLifestyleEntry (ls_lifestyleRepo ls) entryID w = (Inr e, w1)
        \<and> ls_authorize ls (le_PatientID e) w1 = (True, w2)
        \<and> repo_UpdateLifestyleEntry (ls_lifestyleRepo ls) entryID (mergeLifestyleEntry e lr) w2
            = (Inr e', w3)
      \<longrightarrow> LifestyleService_UpdateLifestyleEntry ls entryID lr w = (Inr e', w3)"
    by (simp add: UpdateLifestyleEntry_persists_merge)
  have svc2: "ms_validate ms (UpdateMedicalHistoryPayload hr) = []
        \<and> repo_GetMedicalHistoryEntry (ms_medicalHistoryRepo ms) entryID w = (Inr h, w1)
        \<and> ms_authorize ms (mh_PatientID h) w1 = (True, w2)
        \<and> repo_UpdateMedicalHistoryEntry (ms_medicalHistoryRepo ms) entryID
             (mergeMedicalHistoryEntry h hr) w2 = (Inr h', w3)
      \<longrightarrow> MedicalHistoryService_UpdateMedicalHistoryEntry ms entryID hr w = (Inr h', w3)"
    by (simp add: UpdateMedicalHistoryEntry_persists_merge)
  have svc3: "ps_validate ps (UpdatePatientPayload pr) = []
        \<and> (upr_Age pr = 0 \<or> IsZero (upr_DateOfBirth pr)
             \<or> expectedAge now (upr_DateOfBirth pr) = upr_Age pr)
        \<and> repo_GetPatient (ps_patientRepo ps) patientID w = (Inr p, w1)
        \<and> repo_UpdatePatient (ps_patientRepo ps) patientID (mergePatient p pr) w1 = (Inr p', w2)
      \<longrightarrow> PatientService_UpdatePatient ps now patientID pr w = (Inr p', w2)"
    using UpdatePatient_persists_merge [of ps pr now patientID w p w1 p' w2] by simp
  show ?thesis
    by (intro conjI merge_empty_request mergeLifestyleEntry_fields
        mergeMedicalHistoryEntry_fields mergePatient_fields svc1 svc2 svc3)
qed

text \<open>
  On the concrete system: the physician (user 9) updates lifestyle entry 1 and medical
  history entry 1 with empty requests, and patient 2 is updated with an empty request.
  Each call returns the stored entity and leaves the store as it was.
\<close>

theorem update_merge_is_optional_overwrite_witness:
  "LifestyleService_UpdateLifestyleEntry (lifestyleSvc ''9'') 1 emptyUpdateLifestyleRequest world0
     = (Inr entry1, world0)
   \<and> MedicalHistoryService_UpdateMedicalHistoryEntry (medicalHistorySvc ''9'') 1
       emptyUpdateMedicalHistoryRequest world0 = (Inr hist1, world0)
   \<and> PatientService_UpdatePatient patientSvc today 2 emptyUpdatePatientRequest world0
       = (Inr patient2, world0)"
proof -
  have auth: "authorizeWith fst memGetUser ''9'' 2 world0 = (True, world0)"
    by (simp add: authorizeWith_def Authorize_def memGetUser_def world0_def Sprint_int_def
        showNat.simps [of 2] digitChar_def)
  have l: "LifestyleService_UpdateLifestyleEntry (lifestyleSvc ''9'') 1
             emptyUpdateLifestyleRequest world0 = (Inr entry1, world0)"
    using update_merge_is_optional_overwrite [where e = entry1 and h = hist1 and p = patient2
        and lr = emptyUpdateLifestyleRequest and hr = emptyUpdateMedicalHistoryRequest
        and pr = emptyUpdatePatientRequest and ls = "lifestyleSvc ''9''" and entryID = 1
        and w = world0 and ?w1.0 = world0 and ?w2.0 = world0 and e' = entry1 and ?w3.0 = world0
        and ms = "medicalHistorySvc ''9''" and h' = hist1 and ps = patientSvc and now = today
        and patientID = 2 and p' = patient2] auth
    by (simp add: lifestyleSvc_def memLifestyleRepo_def world0_def replaceRow_def entry1_def)
  have m: "MedicalHistoryService_UpdateMedicalHistoryEntry (medicalHistorySvc ''9'') 1
             emptyUpdateMedicalHistoryRequest world0 = (Inr hist1, world0)"
    using update_merge_is_optional_overwrite [where e = entry1 and h = hist1 and p = patient2
        and lr = emptyUpdateLifestyleRequest and hr = emptyUpdateMedicalHistoryRequest
        and pr = emptyUpdatePatientRequest and ls = "lifestyleSvc ''9''" and entryID = 1
        and w = world0 and ?w1.0 = world0 and ?w2.0 = world0 and e' = entry1 and ?w3.0 = world0
        and ms = "medicalHistorySvc ''9''" and h' = hist1 and ps = patientSvc and now = today
        and patientID = 2 and p' = patient2] auth
    by (simp add: medicalHistorySvc_def memMedicalHistoryRepo_def world0_def replaceRow_def
        hist1_def)
  have p: "PatientService_UpdatePatient patientSvc today 2 emptyUpdatePatientRequest world0
             = (Inr patient2, world0)"
    using update_merge_is_optional_overwrite [where e = entry1 and h = hist1 and p = patient2
        and lr = emptyUpdateLifestyleRequest and hr = emptyUpdateMedicalHistoryRequest
        and pr = emptyUpdatePatientRequest and ls = "lifestyleSvc ''9''" and entryID = 1
        and w = world0 and ?w1.0 = world0 and ?w2.0 = world0 and e' = entry1 and ?w3.0 = world0
        and ms = "medicalHistorySvc ''9''" and h' = hist1 and ps = patientSvc and now = today
        and patientID = 2 and p' = patient2]
    by (simp add: patientSvc_def memPatientRepo_def world0_def replaceRow_def
        emptyUpdatePatientRequest_def)
  show ?thesis using l m p by simp
qed

subsection \<open>Where the authorization function is called\<close>

text \<open>
  Claim C9. The injected authorization function is called by the Update and Delete
  methods of the Lifestyle and MedicalHistory services only. Create, the listing by owner
  and the lookup by id never call it: whatever function is injected, they return the same
  result and leave the same world, so they succeed or fail independently of the caller's
  identity and roles. Update and Delete do depend on it: on the concrete system the
  owner (user 2) and a stranger (user 3) get different results from each of them.
\<close>

theorem authorize_called_by_update_and_delete_only:
  "LifestyleService_CreateLifestyleEntry (ls\<lparr>ls_authorize := a\<rparr>) patientID lreq w
     = LifestyleService_CreateLifestyleEntry ls patientID lreq w
   \<and> LifestyleService_GetLifestyleEntries (ls\<lparr>ls_authorize := a\<rparr>) patientID w
       = LifestyleService_GetLifestyleEntries ls patientID w
   \<and> LifestyleService_GetLifestyleEntry (ls\<lparr>ls_authorize := a\<rparr>) entryID w
       = LifestyleService_GetLifestyleEntry ls entryID w
   \<and> MedicalHistoryService_CreateMedicalHistoryEntry (ms\<lparr>ms_authorize := a\<rparr>) patientID hreq w
       = MedicalHistoryService_CreateMedicalHistoryEntry ms patientID hreq w
   \<and> MedicalHistoryService_GetMedicalHistoryEntries (ms\<lparr>ms_authorize := a\<rparr>) patientID w
       = MedicalHistoryService_GetMedicalHistoryEntries ms patientID w
   \<and> MedicalHistoryService_GetMedicalHistoryEntry (ms\<lparr>ms_authorize := a\<rparr>) entryID w
       = MedicalHistoryService_GetMedicalHistoryEntry ms entryID w
   \<and> LifestyleService_UpdateLifestyleEntry (lifestyleSvc ''2'') 1 emptyUpdateLifestyleRequest
        world0
       \<noteq> LifestyleService_UpdateLifestyleEntry (lifestyleSvc ''3'') 1
           emptyUpdateLifestyleRequest world0
   \<and> LifestyleService_DeleteLifestyleEntry (lifestyleSvc ''2'') 1 world0
       \<noteq> LifestyleService_DeleteLifestyleEntry (lifestyleSvc ''3'') 1 world0
   \<and> MedicalHistoryService_UpdateMedicalHistoryEntry (medicalHistorySvc ''2'') 1
        emptyUpdateMedicalHistoryRequest world0
       \<noteq> MedicalHistoryService_UpdateMedicalHistoryEntry (medicalHistorySvc ''3'') 1
           emptyUpdateMedicalHistoryRequest world0
   \<and> MedicalHistoryService_DeleteMedicalHistoryEntry (medicalHistorySvc ''2'') 1 world0
       \<noteq> MedicalHistoryService_DeleteMedicalHistoryEntry (medicalHistorySvc ''3'') 1 world0"
proof -
  have u1: "LifestyleService_UpdateLifestyleEntry (lifestyleSvc ''2'') 1
              emptyUpdateLifestyleRequest world0
            \<noteq> LifestyleService_UpdateLifestyleEntry (lifestyleSvc ''3'') 1
                emptyUpdateLifestyleRequest world0"
    by code_simp
  have d1: "LifestyleService_DeleteLifestyleEntry (lifestyleSvc ''2'') 1 world0
            \<noteq> LifestyleService_DeleteLifestyleEntry (lifestyleSvc ''3'') 1 world0"
    by code_simp
  have u2: "MedicalHistoryService_UpdateMedicalHistoryEntry (medicalHistorySvc ''2'') 1
              emptyUpdateMedicalHistoryRequest world0
            \<noteq> MedicalHistoryService_UpdateMedicalHistoryEntry (medicalHistorySvc ''3'') 1
                emptyUpdateMedicalHistoryRequest world0"
    by code_simp
  have d2: "MedicalHistoryService_DeleteMedicalHistoryEntry (medicalHistorySvc ''2'') 1 world0
            \<noteq> MedicalHistoryService_DeleteMedicalHistoryEntry (medicalHistorySvc ''3'') 1 world0"
    by code_simp
  show ?thesis
    using u1 d1 u2 d2
    by (simp add: LifestyleService_CreateLifestyleEntry_def
        LifestyleService_GetLifestyleEntries_def LifestyleService_GetLifestyleEntry_def
        MedicalHistoryService_CreateMedicalHistoryEntry_def
        MedicalHistoryService_GetMedicalHistoryEntries_def
        MedicalHistoryService_GetMedicalHistoryEntry_def
        cong del: prod.case_cong_weak sum.case_cong_weak if_weak_cong)
qed

text \<open>
  On the concrete system, with the stranger's authorization replaced by one that always
  allows: the listing of the lifestyle entries of patient 2 and the lookup of medical
  history entry 1 return what they returned before.
\<close>

theorem authorize_called_by_update_and_delete_only_witness:
  "LifestyleService_GetLifestyleEntries
     ((lifestyleSvc ''3'')\<lparr>ls_authorize := (\<lambda>patientID w. (True, w))\<rparr>) 2 world0
     = LifestyleService_GetLifestyleEntries (lifestyleSvc ''3'') 2 world0
   \<and> LifestyleService_GetLifestyleEntries (lifestyleSvc ''3'') 2 world0 = (Inr [entry1], world0)
   \<and> MedicalHistoryService_GetMedicalHistoryEntry
       ((medicalHistorySvc ''3'')\<lparr>ms_authorize := (\<lambda>patientID w. (True, w))\<rparr>) 1 world0
     = MedicalHistoryService_GetMedicalHistoryEntry (medicalHistorySvc ''3'') 1 world0
   \<and> MedicalHistoryService_GetMedicalHistoryEntry (medicalHistorySvc ''3'') 1 world0
     = (Inr hist1, world0)"
proof -
  have r1: "LifestyleService_GetLifestyleEntries (lifestyleSvc ''3'') 2 world0
              = (Inr [entry1], world0)"
    by code_simp
  have r2: "MedicalHistoryService_GetMedicalHistoryEntry (medicalHistorySvc ''3'') 1 world0
              = (Inr hist1, world0)"
    by code_simp
  show ?thesis
    using r1 r2
      authorize_called_by_update_and_delete_only [where ls = "lifestyleSvc ''3''"
        and ms = "medicalHistorySvc ''3''" and a = "\<lambda>patientID w. (True, w)"
        and patientID = 2 and entryID = 1 and w = world0]
    by simp
qed

subsection \<open>A denied Update or Delete changes nothing\<close>

text \<open>
  Claim C3. When an Update or Delete call on a lifestyle or medical history entry reaches
  the authorization step (for Update the request has passed validation; the entry has
  been loaded) and the injected authorization function returns false for the stored owner
  id, the service returns the Forbidden error and the mutating methods of the repository
  are not called: whatever those methods are, the result is Forbidden and the world is
  the one left by the lookup and by the authorization call.
\<close>

theorem denied_update_delete_is_forbidden_without_mutation:
  "(ls_validator ls (UpdateLifestylePayload lreq) = []
      \<and> repo_GetLifestyleEntry (ls_lifestyleRepo ls) entryID w = (Inr e, w1)
      \<and> ls_authorize ls (le_PatientID e) w1 = (False, w2)
    \<longrightarrow> LifestyleService_UpdateLifestyleEntry
          (ls\<lparr>ls_lifestyleRepo := (ls_lifestyleRepo ls)
               \<lparr>repo_CreateLifestyleEntry := lcreate, repo_UpdateLifestyleEntry := lupdate,
                repo_DeleteLifestyleEntry := ldelete\<rparr>\<rparr>) entryID lreq w
        = (Inl ErrForbidden, w2))
   \<and> (repo_GetLifestyleEntry (ls_lifestyleRepo ls) entryID w = (Inr e, w1)
      \<and> ls_authorize ls (le_PatientID e) w1 = (False, w2)
    \<longrightarrow> LifestyleService_DeleteLifestyleEntry
          (ls\<lparr>ls_lifestyleRepo := (ls_lifestyleRepo ls)
               \<lparr>repo_CreateLifestyleEntry := lcreate, repo_UpdateLifestyleEntry := lupdate,
                repo_DeleteLifestyleEntry := ldelete\<rparr>\<rparr>) entryID w
        = (Some ErrForbidden, w2))
   \<and> (ms_validate ms (UpdateMedicalHistoryPayload hreq) = []
      \<and> repo_GetMedicalHistoryEntry (ms_medicalHistoryRepo ms) entryID w = (Inr h, w1)
      \<and> ms_authorize ms (mh_PatientID h) w1 = (False, w2)
    \<longrightarrow> MedicalHistoryService_UpdateMedicalHistoryEntry
          (ms\<lparr>ms_medicalHistoryRepo := (ms_medicalHistoryRepo ms)
               \<lparr>repo_CreateMedicalHistoryEntry := hcreate,
                repo_UpdateMedicalHistoryEntry := hupdate,
                repo_DeleteMedicalHistoryEntry := hdelete\<rparr>\<rparr>) entryID hreq w
        = (Inl ErrForbidden, w2))
   \<and> (repo_GetMedicalHistoryEntry (ms_medicalHistoryRepo ms) entryID w = (Inr h, w1)
      \<and> ms_authorize ms (mh_PatientID h) w1 = (False, w2)
    \<longrightarrow> MedicalHistoryService_DeleteMedicalHistoryEntry
          (ms\<lparr>ms_medicalHistoryRepo := (ms_medicalHistoryRepo ms)
               \<lparr>repo_CreateMedicalHistoryEntry := hcreate,
                repo_UpdateMedicalHistoryEntry := hupdate,
                repo_DeleteMedicalHistoryEntry := hdelete\<rparr>\<rparr>) entryID w
        = (Some ErrForbidden, w2))"
  by (simp add: LifestyleService_UpdateLifestyleEntry_def
      LifestyleService_DeleteLifestyleEntry_def
      MedicalHistoryService_UpdateMedicalHistoryEntry_def
      MedicalHistoryService_DeleteMedicalHistoryEntry_def)

text \<open>
  On the concrete system: user 3, who has no role, updates and deletes entry 1 of patient
  2, against repositories whose mutating methods would empty the tables. Every call returns
  Forbidden and the store is unchanged.
\<close>

theorem denied_update_delete_is_forbidden_without_mutation_witness:
  "LifestyleService_UpdateLifestyleEntry
     ((lifestyleSvc ''3'')
        \<lparr>ls_lifestyleRepo := (ls_lifestyleRepo (lifestyleSvc ''3''))
           \<lparr>repo_CreateLifestyleEntry := (\<lambda>e w. (Inr e, w\<lparr>lifestyle := []\<rparr>)),
            repo_UpdateLifestyleEntry := (\<lambda>entryID e w. (Inr e, w\<lparr>lifestyle := []\<rparr>)),
            repo_DeleteLifestyleEntry := (\<lambda>entryID w. (None, w\<lparr>lifestyle := []\<rparr>))\<rparr>\<rparr>)
     1 emptyUpdateLifestyleRequest world0
     = (Inl ErrForbidden, world0)
   \<and> LifestyleService_DeleteLifestyleEntry
     ((lifestyleSvc ''3'')
        \<lparr>ls_lifestyleRepo := (ls_lifestyleRepo (lifestyleSvc ''3''))
           \<lparr>repo_CreateLifestyleEntry := (\<lambda>e w. (Inr e, w\<lparr>lifestyle := []\<rparr>)),
            repo_UpdateLifestyleEntry := (\<lambda>entryID e w. (Inr e, w\<lparr>lifestyle := []\<rparr>)),
            repo_DeleteLifestyleEntry := (\<lambda>entryID w. (None, w\<lparr>lifestyle := []\<rparr>))\<rparr>\<rparr>)
     1 world0
     = (Some ErrForbidden, world0)
   \<and> MedicalHistoryService_UpdateMedicalHistoryEntry
     ((medicalHistorySvc ''3'')
        \<lparr>ms_medicalHistoryRepo := (ms_medicalHistoryRepo (medicalHistorySvc ''3''))
           \<lparr>repo_CreateMedicalHistoryEntry := (\<lambda>e w. (Inr e, w\<lparr>history := []\<rparr>)),
            repo_UpdateMedicalHistoryEntry := (\<lambda>entryID e w. (Inr e, w\<lparr>history := []\<rparr>)),
            repo_DeleteMedicalHistoryEntry := (\<lambda>entryID w. (None, w\<lparr>history := []\<rparr>))\<rparr>\<rparr>)
     1 emptyUpdateMedicalHistoryRequest world0
     = (Inl ErrForbidden, world0)
   \<and> MedicalHistoryService_DeleteMedicalHistoryEntry
     ((medicalHistorySvc ''3'')
        \<lparr>ms_medicalHistoryRepo := (ms_medicalHistoryRepo (medicalHistorySvc ''3''))
           \<lparr>repo_CreateMedicalHistoryEntry := (\<lambda>e w. (Inr e, w\<lparr>history := []\<rparr>)),
            repo_UpdateMedicalHistoryEntry := (\<lambda>entryID e w. (Inr e, w\<lparr>history := []\<rparr>)),
            repo_DeleteMedicalHistoryEntry := (\<lambda>entryID w. (None, w\<lparr>history := []\<rparr>))\<rparr>\<rparr>)
     1 world0
     = (Some ErrForbidden, world0)"
proof -
  have v1: "ls_validator (lifestyleSvc ''3'') (UpdateLifestylePayload emptyUpdateLifestyleRequest)
              = []"
    by code_simp
  have g1: "repo_GetLifestyleEntry (ls_lifestyleRepo (lifestyleSvc ''3'')) 1 world0
              = (Inr entry1, world0)"
    by code_simp
  have a1: "ls_authorize (lifestyleSvc ''3'') (le_PatientID entry1) world0 = (False, world0)"
    by code_simp
  have v2: "ms_validate (medicalHistorySvc ''3'')
              (UpdateMedicalHistoryPayload emptyUpdateMedicalHistoryRequest) = []"
    by code_simp
  have g2: "repo_GetMedicalHistoryEntry (ms_medicalHistoryRepo (medicalHistorySvc ''3'')) 1 world0
              = (Inr hist1, world0)"
    by code_simp
  have a2: "ms_authorize (medicalHistorySvc ''3'') (mh_PatientID hist1) world0 = (False, world0)"
    by code_simp
  show ?thesis
    using v1 g1 a1 v2 g2 a2
      denied_update_delete_is_forbidden_without_mutation [where ls = "lifestyleSvc ''3''"
        and ms = "medicalHistorySvc ''3''" and entryID = 1 and w = world0 and ?w1.0 = world0
        and ?w2.0 = world0 and e = entry1 and h = hist1
        and lreq = emptyUpdateLifestyleRequest and hreq = emptyUpdateMedicalHistoryRequest
        and lcreate = "\<lambda>e w. (Inr e, w\<lparr>lifestyle := []\<rparr>)"
        and lupdate = "\<lambda>entryID e w. (Inr e, w\<lparr>lifestyle := []\<rparr>)"
        and ldelete = "\<lambda>entryID w. (None, w\<lparr>lifestyle := []\<rparr>)"
        and hcreate = "\<lambda>e w. (Inr e, w\<lparr>history := []\<rparr>)"
        and hupdate = "\<lambda>entryID e w. (Inr e, w\<lparr>history := []\<rparr>)"
        and hdelete = "\<lambda>entryID w. (None, w\<lparr>history := []\<rparr>)"]
    by simp
qed

subsection \<open>The policy of the authorization gate\<close>

lemma rolesLoop_iff:
  "rolesLoop vs = (MString ''physician'' \<in> set vs \<or> MString ''clerk'' \<in> set vs)"
  by (induction vs) auto

text \<open>
  Claim C7. The gate decides in a fixed order, stopping at the first rule that applies.
  (1) When the caller's identity is the owner patient id printed as a string, it allows,
  without calling the identity provider: the result is the same for every provider, and
  so for every state of the metadata, and the world is untouched. (2) Otherwise, with the
  caller's profile resolved, it allows when a value of the metadata is the string
  \<open>physician\<close> or \<open>clerk\<close>; (3) otherwise it allows when the printed metadata contains
  \<open>patient:read_all\<close>; (4) otherwise it denies. When the provider fails for a caller who
  is not the owner, the gate returns false together with the provider's error.
\<close>

theorem Authorize_policy_in_order:
  "(Sprint_int patientID = userID
      \<longrightarrow> Authorize GetUser userID patientID w = ((True, None), w))
   \<and> (Sprint_int patientID \<noteq> userID \<and> GetUser userID w = (Inr u, w1)
      \<longrightarrow> Authorize GetUser userID patientID w =
            ((if MString ''physician'' \<in> snd ` set (PublicMetadata u)
                   \<or> MString ''clerk'' \<in> snd ` set (PublicMetadata u) then True
               else if Contains (Sprint_metadata (PublicMetadata u)) ''patient:read_all''
               then True
               else False, None), w1))
   \<and> (Sprint_int patientID \<noteq> userID \<and> GetUser userID w = (Inl err, w1)
      \<longrightarrow> Authorize GetUser userID patientID w = ((False, Some err), w1))"
  by (simp add: Authorize_def rolesLoop_iff)

text \<open>
  On the concrete system, for the entries of patient 2: user 2 is allowed although the
  identity provider does not know that user; the physician (user 9) is allowed; a user
  whose metadata holds the override is allowed; user 3, without role or override, is
  denied; an unknown user other than the owner gets false and the provider's error.
\<close>

theorem Authorize_policy_in_order_witness:
  "Sprint_int 2 = ''2''
   \<and> Authorize memGetUser ''2'' 2 world0 = ((True, None), world0)
   \<and> memGetUser ''2'' world0 = (Inl (ExternalError ''clerk: user lookup failed''), world0)
   \<and> Authorize memGetUser ''9'' 2 world0 = ((True, None), world0)
   \<and> Authorize memGetUser ''5'' 2
        (world0\<lparr>users := [(''5'', \<lparr>PublicMetadata = [(''patient'', MString ''read_all'')]\<rparr>)]\<rparr>)
       = ((True, None),
          world0\<lparr>users := [(''5'', \<lparr>PublicMetadata = [(''patient'', MString ''read_all'')]\<rparr>)]\<rparr>)
   \<and> Authorize memGetUser ''3'' 2 world0 = ((False, None), world0)
   \<and> Authorize memGetUser ''4'' 2 world0
       = ((False, Some (ExternalError ''clerk: user lookup failed'')), world0)"
proof -
  have s2: "Sprint_int 2 = ''2''"
    by code_simp
  have g2: "memGetUser ''2'' world0 = (Inl (ExternalError ''clerk: user lookup failed''), world0)"
    by code_simp
  have g9: "memGetUser ''9'' world0
              = (Inr \<lparr>PublicMetadata = [(''role'', MString ''physician'')]\<rparr>, world0)"
    by code_simp
  have g5: "memGetUser ''5''
              (world0\<lparr>users := [(''5'', \<lparr>PublicMetadata = [(''patient'', MString ''read_all'')]\<rparr>)]\<rparr>)
            = (Inr \<lparr>PublicMetadata = [(''patient'', MString ''read_all'')]\<rparr>,
               world0\<lparr>users := [(''5'', \<lparr>PublicMetadata = [(''patient'', MString ''read_all'')]\<rparr>)]\<rparr>)"
    by code_simp
  have c5: "Contains (Sprint_metadata [(''patient'', MString ''read_all'')]) ''patient:read_all''"
    by code_simp
  have g3: "memGetUser ''3'' world0 = (Inr \<lparr>PublicMetadata = []\<rparr>, world0)"
    by code_simp
  have c3: "\<not> Contains (Sprint_metadata []) ''patient:read_all''"
    by code_simp
  have g4: "memGetUser ''4'' world0 = (Inl (ExternalError ''clerk: user lookup failed''), world0)"
    by code_simp
  show ?thesis
    using s2 g2 g9 g5 c5 g3 c3 g4
      Authorize_policy_in_order [where patientID = 2 and userID = "''2''" and w = world0
        and GetUser = memGetUser]
      Authorize_policy_in_order [where patientID = 2 and userID = "''9''" and w = world0
        and GetUser = memGetUser and ?w1.0 = world0
        and u = "\<lparr>PublicMetadata = [(''role'', MString ''physician'')]\<rparr>"]
      Authorize_policy_in_order [where patientID = 2 and userID = "''5''"
        and w = "world0\<lparr>users := [(''5'', \<lparr>PublicMetadata = [(''patient'', MString ''read_all'')]\<rparr>)]\<rparr>"
        and GetUser = memGetUser
        and ?w1.0 = "world0\<lparr>users := [(''5'', \<lparr>PublicMetadata = [(''patient'', MString ''read_all'')]\<rparr>)]\<rparr>"
        and u = "\<lparr>PublicMetadata = [(''patient'', MString ''read_all'')]\<rparr>"]
      Authorize_policy_in_order [where patientID = 2 and userID = "''3''" and w = world0
        and GetUser = memGetUser and ?w1.0 = world0 and u = "\<lparr>PublicMetadata = []\<rparr>"]
      Authorize_policy_in_order [where patientID = 2 and userID = "''4''" and w = world0
        and GetUser = memGetUser and ?w1.0 = world0
        and err = "ExternalError ''clerk: user lookup failed''"]
    by simp
qed

subsection \<open>Age and date of birth\<close>




lemma UpdatePatient_code:
  "(resultCode (PatientService_UpdatePatient ps now patientID req w) = Some ''INCONSISTENT_DATA'')
     = (ps_validate ps (UpdatePatientPayload req) = [] \<and> upr_Age req \<noteq> 0
        \<and> \<not> IsZero (upr_DateOfBirth req)
        \<and> expectedAge now (upr_DateOfBirth req) \<noteq> upr_Age req)"
  by (auto simp: PatientService_UpdatePatient_def resultCode_def Let_def
      split: prod.splits sum.splits)



lemma UpdatePatient_unchecked:
  assumes "ps_validate ps (UpdatePatientPayload req) = []"
    and "upr_Age req = 0 \<or> IsZero (upr_DateOfBirth req)"
    and "repo_GetPatient (ps_patientRepo ps) patientID w = (Inr p, w1)"
    and "repo_UpdatePatient (ps_patientRepo ps) patientID (mergePatient p req) w1
           = (Inr p', w2)"
  shows "PatientService_UpdatePatient ps now patientID req w = (Inr p', w2)"
  using assms by (auto simp: PatientService_UpdatePatient_def)

text \<open>
  Claim C8. The consistency check of \<open>UpdatePatient\<close> looks at the two fields of the
  request only, never at the stored patient: the method returns \<open>INCONSISTENT_DATA\<close>
  exactly when the request is valid, supplies both an age and a date of birth, and the age
  computed from the request's date of birth differs from the request's age. The check is
  skipped when either field of the request is zero: a valid update that supplies only one
  of them is merged into the stored patient, whatever that patient is, and persisted. Hence
  Update does not re-establish that the stored age agrees with the stored date of birth: on
  the concrete system, patient 2 (age 30, born 15 June 1994, in agreement on 1 December
  2024) is stored with age 45 after an update of the age alone, and with a date of birth of
  1 January 2000 after an update of the date alone.
\<close>

theorem UpdatePatient_checks_request_fields_only:
  "(resultCode (PatientService_UpdatePatient ps now patientID req w) = Some ''INCONSISTENT_DATA'')
     = (ps_validate ps (UpdatePatientPayload req) = [] \<and> upr_Age req \<noteq> 0
        \<and> \<not> IsZero (upr_DateOfBirth req)
        \<and> expectedAge now (upr_DateOfBirth req) \<noteq> upr_Age req)
   \<and> (ps_validate ps (UpdatePatientPayload req) = []
        \<and> (upr_Age req = 0 \<or> IsZero (upr_DateOfBirth req))
        \<and> repo_GetPatient (ps_patientRepo ps) patientID w = (Inr p, w1)
        \<and> repo_UpdatePatient (ps_patientRepo ps) patientID (mergePatient p req) w1
            = (Inr p', w2)
      \<longrightarrow> PatientService_UpdatePatient ps now patientID req w = (Inr p', w2))
   \<and> expectedAge today (p_DateOfBirth patient2) = p_Age patient2
   \<and> PatientService_UpdatePatient patientSvc today 2 (updateAgeOnly 45) world0
       = (Inr (patient2\<lparr>p_Age := 45\<rparr>),
          world0\<lparr>patients := [(2, patient2\<lparr>p_Age := 45\<rparr>), (7, patient7)]\<rparr>)
   \<and> expectedAge today (p_DateOfBirth (patient2\<lparr>p_Age := 45\<rparr>)) \<noteq> p_Age (patient2\<lparr>p_Age := 45\<rparr>)
   \<and> PatientService_UpdatePatient patientSvc today 2 (updateDateOfBirthOnly (date 2000 1 1)) world0
       = (Inr (patient2\<lparr>p_DateOfBirth := date 2000 1 1\<rparr>),
          world0\<lparr>patients := [(2, patient2\<lparr>p_DateOfBirth := date 2000 1 1\<rparr>), (7, patient7)]\<rparr>)
   \<and> expectedAge today (p_DateOfBirth (patient2\<lparr>p_DateOfBirth := date 2000 1 1\<rparr>))
       \<noteq> p_Age (patient2\<lparr>p_DateOfBirth := date 2000 1 1\<rparr>)"
proof -
  have c: "(resultCode (PatientService_UpdatePatient ps now patientID req w)
              = Some ''INCONSISTENT_DATA'')
     = (ps_validate ps (UpdatePatientPayload req) = [] \<and> upr_Age req \<noteq> 0
        \<and> \<not> IsZero (upr_DateOfBirth req)
        \<and> expectedAge now (upr_DateOfBirth req) \<noteq> upr_Age req)"
    by (rule UpdatePatient_code)
  have s: "ps_validate ps (UpdatePatientPayload req) = []
        \<and> (upr_Age req = 0 \<or> IsZero (upr_DateOfBirth req))
        \<and> repo_GetPatient (ps_patientRepo ps) patientID w = (Inr p, w1)
        \<and> repo_UpdatePatient (ps_patientRepo ps) patientID (mergePatient p req) w1
            = (Inr p', w2)
      \<longrightarrow> PatientService_UpdatePatient ps now patientID req w = (Inr p', w2)"
    using UpdatePatient_unchecked [of ps req patientID w p w1 p' w2 now] by simp
  have e0: "expectedAge today (p_DateOfBirth patient2) = p_Age patient2"
    by code_simp
  have u1: "PatientService_UpdatePatient patientSvc today 2 (updateAgeOnly 45) world0
       = (Inr (patient2\<lparr>p_Age := 45\<rparr>),
          world0\<lparr>patients := [(2, patient2\<lparr>p_Age := 45\<rparr>), (7, patient7)]\<rparr>)"
    by code_simp
  have e1: "expectedAge today (p_DateOfBirth (patient2\<lparr>p_Age := 45\<rparr>))
              \<noteq> p_Age (patient2\<lparr>p_Age := 45\<rparr>)"
    by code_simp
  have u2: "PatientService_UpdatePatient patientSvc today 2
              (updateDateOfBirthOnly (date 2000 1 1)) world0
       = (Inr (patient2\<lparr>p_DateOfBirth := date 2000 1 1\<rparr>),
          world0\<lparr>patients := [(2, patient2\<lparr>p_DateOfBirth := date 2000 1 1\<rparr>), (7, patient7)]\<rparr>)"
    by code_simp
  have e2: "expectedAge today (p_DateOfBirth (patient2\<lparr>p_DateOfBirth := date 2000 1 1\<rparr>))
       \<noteq> p_Age (patient2\<lparr>p_DateOfBirth := date 2000 1 1\<rparr>)"
    by code_simp
  show ?thesis
    by (intro conjI c s e0 u1 e1 u2 e2)
qed

text \<open>
  On the concrete system: the update of the age alone is valid and skips the check, the
  stored patient is found, and the repository stores the merged patient; the method
  returns it, and its code is not \<open>INCONSISTENT_DATA\<close>.
\<close>

theorem UpdatePatient_checks_request_fields_only_witness:
  "PatientService_UpdatePatient patientSvc today 2 (updateAgeOnly 45) world0
     = (Inr (patient2\<lparr>p_Age := 45\<rparr>),
        world0\<lparr>patients := [(2, patient2\<lparr>p_Age := 45\<rparr>), (7, patient7)]\<rparr>)
   \<and> resultCode (PatientService_UpdatePatient patientSvc today 2 (updateAgeOnly 45) world0)
       \<noteq> Some ''INCONSISTENT_DATA''"
proof -
  have v: "ps_validate patientSvc (UpdatePatientPayload (updateAgeOnly 45)) = []"
    by code_simp
  have z: "IsZero (upr_DateOfBirth (updateAgeOnly 45))"
    by code_simp
  have g: "repo_GetPatient (ps_patientRepo patientSvc) 2 world0 = (Inr patient2, world0)"
    by code_simp
  have u: "repo_UpdatePatient (ps_patientRepo patientSvc) 2
             (mergePatient patient2 (updateAgeOnly 45)) world0
           = (Inr (patient2\<lparr>p_Age := 45\<rparr>),
              world0\<lparr>patients := [(2, patient2\<lparr>p_Age := 45\<rparr>), (7, patient7)]\<rparr>)"
    by code_simp
  show ?thesis
    using v z g u
      UpdatePatient_checks_request_fields_only [where ps = patientSvc and now = today
        and patientID = 2 and req = "updateAgeOnly 45" and w = world0 and ?w1.0 = world0
        and p = patient2 and p' = "patient2\<lparr>p_Age := 45\<rparr>"
        and ?w2.0 = "world0\<lparr>patients := [(2, patient2\<lparr>p_Age := 45\<rparr>), (7, patient7)]\<rparr>"]
    by (simp add: resultCode_def)
qed

subsection \<open>What a validation failure returns\<close>

lemma errorDetails_nth:
  "i < length errs
     \<Longrightarrow> errorDetails errs ! i
           = ''Field '' @ Field (errs ! i) @ '' failed validation for tag '' @ Tag (errs ! i)"
  by (simp add: errorDetails_def)

text \<open>
  Claim C4, as stated, fails on the Lifestyle service: a lifestyle request without its
  factor is refused with the bare sentinel \<open>ErrInvalidInput\<close>, which carries neither a
  code nor the list of failing fields that the validator reported.
\<close>

theorem lifestyle_validation_error_has_no_details:
  "ls_validator (lifestyleSvc ''3'') (CreateLifestylePayload emptyCreateLifestyleRequest)
     = [\<lparr>Field = ''LifestyleFactor'', Tag = ''required''\<rparr>]
   \<and> LifestyleService_CreateLifestyleEntry (lifestyleSvc ''3'') 2 emptyCreateLifestyleRequest
        world0 = (Inl ErrInvalidInput, world0)
   \<and> Code ErrInvalidInput = None
   \<and> Details ErrInvalidInput = None
   \<and> \<not> errors_As_ValidationError ErrInvalidInput"
  by code_simp

text \<open>
  Claim C4, amended. A request that fails validation in the Patient or the MedicalHistory
  service (Create or Update) is answered with one \<open>ValidationError\<close> that carries a code
  (\<open>INVALID_PATIENT_DATA\<close>, \<open>INVALID_MEDICAL_HISTORY_DATA\<close>), the message
  \<open>Validation errors occurred\<close> and one detail for each field failure the validator
  reported, in the validator's order, naming the field and the rule. A request that fails
  validation in the Lifestyle service (Create or Update) is answered with the sentinel
  \<open>ErrInvalidInput\<close>, without code or details. In every case the world is untouched.
\<close>

theorem validation_failure_results:
  "(ps_validate ps (CreatePatientPayload pcreq) \<noteq> []
      \<longrightarrow> PatientService_CreatePatient ps now pcreq w
            = (Inl (ValidationError ''INVALID_PATIENT_DATA'' ''Validation errors occurred''
                     (errorDetails (ps_validate ps (CreatePatientPayload pcreq)))), w))
   \<and> (ps_validate ps (UpdatePatientPayload pureq) \<noteq> []
      \<longrightarrow> PatientService_UpdatePatient ps now patientID pureq w
            = (Inl (ValidationError ''INVALID_PATIENT_DATA'' ''Validation errors occurred''
                     (errorDetails (ps_validate ps (UpdatePatientPayload pureq)))), w))
   \<and> (ms_validate ms (CreateMedicalHistoryPayload hcreq) \<noteq> []
      \<longrightarrow> MedicalHistoryService_CreateMedicalHistoryEntry ms patientID hcreq w
            = (Inl (ValidationError ''INVALID_MEDICAL_HISTORY_DATA''
                     ''Validation errors occurred''
                     (errorDetails (ms_validate ms (CreateMedicalHistoryPayload hcreq)))), w))
   \<and> (ms_validate ms (UpdateMedicalHistoryPayload hureq) \<noteq> []
      \<longrightarrow> MedicalHistoryService_UpdateMedicalHistoryEntry ms entryID hureq w
            = (Inl (ValidationError ''INVALID_MEDICAL_HISTORY_DATA''
                     ''Validation errors occurred''
                     (errorDetails (ms_validate ms (UpdateMedicalHistoryPayload hureq)))), w))
   \<and> length (errorDetails errs) = length errs
   \<and> (i < length errs
      \<longrightarrow> errorDetails errs ! i
            = ''Field '' @ Field (errs ! i) @ '' failed validation for tag '' @ Tag (errs ! i))
   \<and> (ls_validator ls (CreateLifestylePayload lcreq) \<noteq> []
      \<longrightarrow> LifestyleService_CreateLifestyleEntry ls patientID lcreq w = (Inl ErrInvalidInput, w))
   \<and> (ls_validator ls (UpdateLifestylePayload lureq) \<noteq> []
      \<longrightarrow> LifestyleService_UpdateLifestyleEntry ls entryID lureq w = (Inl ErrInvalidInput, w))
   \<and> Code ErrInvalidInput = None
   \<and> Details ErrInvalidInput = None"
  by (simp add: PatientService_CreatePatient_def PatientService_UpdatePatient_def
      MedicalHistoryService_CreateMedicalHistoryEntry_def
      MedicalHistoryService_UpdateMedicalHistoryEntry_def
      LifestyleService_CreateLifestyleEntry_def LifestyleService_UpdateLifestyleEntry_def
      errorDetails_nth Let_def)
    (simp add: errorDetails_def)

text \<open>
  On the concrete system: a medical history request without condition and status is
  answered with both failures, a patient request without name and sex likewise, and the
  lifestyle request without factor with \<open>ErrInvalidInput\<close>.
\<close>

theorem validation_failure_results_witness:
  "MedicalHistoryService_CreateMedicalHistoryEntry (medicalHistorySvc ''3'') 2
     emptyCreateMedicalHistoryRequest world0
     = (Inl (ValidationError ''INVALID_MEDICAL_HISTORY_DATA'' ''Validation errors occurred''
              [''Field Condition failed validation for tag required'',
               ''Field Status failed validation for tag required'']), world0)
   \<and> PatientService_CreatePatient patientSvc today namelessCreatePatientRequest world0
     = (Inl (ValidationError ''INVALID_PATIENT_DATA'' ''Validation errors occurred''
              [''Field FullName failed validation for tag required'',
               ''Field Sex failed validation for tag required'']), world0)
   \<and> LifestyleService_CreateLifestyleEntry (lifestyleSvc ''3'') 2 emptyCreateLifestyleRequest
        world0 = (Inl ErrInvalidInput, world0)"
proof -
  have h: "ms_validate (medicalHistorySvc ''3'')
             (CreateMedicalHistoryPayload emptyCreateMedicalHistoryRequest)
           = [\<lparr>Field = ''Condition'', Tag = ''required''\<rparr>, \<lparr>Field = ''Status'', Tag = ''required''\<rparr>]"
    by code_simp
  have p: "ps_validate patientSvc (CreatePatientPayload namelessCreatePatientRequest)
           = [\<lparr>Field = ''FullName'', Tag = ''required''\<rparr>, \<lparr>Field = ''Sex'', Tag = ''required''\<rparr>]"
    by code_simp
  have l: "ls_validator (lifestyleSvc ''3'') (CreateLifestylePayload emptyCreateLifestyleRequest)
           = [\<lparr>Field = ''LifestyleFactor'', Tag = ''required''\<rparr>]"
    by code_simp
  show ?thesis
    using h p l
      validation_failure_results [where ps = patientSvc and now = today
        and pcreq = namelessCreatePatientRequest and w = world0
        and ms = "medicalHistorySvc ''3''" and patientID = 2
        and hcreq = emptyCreateMedicalHistoryRequest and ls = "lifestyleSvc ''3''"
        and lcreq = emptyCreateLifestyleRequest]
    by (simp add: errorDetails_def)
qed

subsection \<open>Listing the entries of an owner over HTTP\<close>

lemma LifestyleHandler_list_empty:
  assumes "Atoi patient_id = Inr patientID"
    and "repo_GetPatient (ls_patientRepo ls) patientID w = (Inr p, w1)"
    and "q (int32 patientID) w1 = (Inr [], w2)"
  shows "LifestyleHandler_GetLifestyleEntries
           (LifestyleService_GetLifestyleEntries
              (ls\<lparr>ls_lifestyleRepo := (ls_lifestyleRepo ls)
                   \<lparr>repo_GetLifestyleEntries := LifestyleRepositoryImpl_GetLifestyleEntries q\<rparr>\<rparr>))
           patient_id w
         = (\<lparr>status = 200, body = LifestyleEntries []\<rparr>, w2)"
  using assms
  by (simp add: LifestyleHandler_GetLifestyleEntries_def LifestyleService_GetLifestyleEntries_def
      LifestyleRepositoryImpl_GetLifestyleEntries_def StatusOK_def)

lemma LifestyleHandler_list_absent:
  assumes "Atoi patient_id = Inr patientID"
    and "repo_GetPatient (ls_patientRepo ls) patientID w = (Inl err, w1)"
    and "errors_Is err ErrPatientNotFound"
  shows "LifestyleHandler_GetLifestyleEntries (LifestyleService_GetLifestyleEntries ls)
           patient_id w
         = (\<lparr>status = 404, body = ErrorResponse ''patient not found''\<rparr>, w1)"
  using assms
  by (simp add: LifestyleHandler_GetLifestyleEntries_def LifestyleService_GetLifestyleEntries_def
      StatusNotFound_def)

lemma MedicalHistoryHandler_list_empty:
  assumes "Atoi patient_id = Inr patientID"
    and "repo_GetPatient (ms_patientRepo ms) patientID w = (Inr p, w1)"
    and "q \<lparr>ni_Int32 = int32 patientID, ni_Valid = True\<rparr> w1 = (Inr [], w2)"
  shows "MedicalHistoryHandler_GetMedicalHistoryEntries
           (MedicalHistoryService_GetMedicalHistoryEntries
              (ms\<lparr>ms_medicalHistoryRepo := (ms_medicalHistoryRepo ms)
                   \<lparr>repo_GetMedicalHistoryEntries :=
                      MedicalHistoryRepositoryImpl_GetMedicalHistoryEntries q\<rparr>\<rparr>))
           patient_id w
         = (\<lparr>status = 404, body = ErrorResponse ''medical history entry not found''\<rparr>, w2)"
  using assms
  by (simp add: MedicalHistoryHandler_GetMedicalHistoryEntries_def
      MedicalHistoryService_GetMedicalHistoryEntries_def
      MedicalHistoryRepositoryImpl_GetMedicalHistoryEntries_def StatusNotFound_def)

lemma MedicalHistoryHandler_list_absent:
  assumes "Atoi patient_id = Inr patientID"
    and "repo_GetPatient (ms_patientRepo ms) patientID w = (Inl err, w1)"
    and "errors_Is err ErrPatientNotFound"
  shows "MedicalHistoryHandler_GetMedicalHistoryEntries
           (MedicalHistoryService_GetMedicalHistoryEntries ms) patient_id w
         = (\<lparr>status = 404, body = ErrorResponse ''patient not found''\<rparr>, w1)"
  using assms
  by (simp add: MedicalHistoryHandler_GetMedicalHistoryEntries_def
      MedicalHistoryService_GetMedicalHistoryEntries_def StatusNotFound_def)

text \<open>
  Claim C1, as stated, fails on the MedicalHistory resource. On the concrete system
  patient 7 exists and has no medical history entry: the query returns no row, and the
  listing over HTTP answers 404 with the entry-not-found message, not 200 with an empty
  array. The Lifestyle listing for the same patient answers 200 with an empty array.
\<close>

theorem medical_history_list_of_existing_owner_without_entries_is_404:
  "Atoi ''7'' = Inr 7
   \<and> repo_GetPatient (ms_patientRepo (pgMedicalHistorySvc ''3'')) 7 world0
       = (Inr patient7, world0)
   \<and> memQ_GetMedicalHistoryEntries \<lparr>ni_Int32 = int32 7, ni_Valid = True\<rparr> world0
       = (Inr [], world0)
   \<and> MedicalHistoryHandler_GetMedicalHistoryEntries
        (MedicalHistoryService_GetMedicalHistoryEntries (pgMedicalHistorySvc ''3'')) ''7'' world0
       = (\<lparr>status = 404, body = ErrorResponse ''medical history entry not found''\<rparr>, world0)
   \<and> LifestyleHandler_GetLifestyleEntries
        (LifestyleService_GetLifestyleEntries (pgLifestyleSvc ''3'')) ''7'' world0
       = (\<lparr>status = 200, body = LifestyleEntries []\<rparr>, world0)"
  by code_simp

text \<open>
  Claim C1, amended. For an owner patient id that exists and has no child entry (the
  listing query returns no row), the Lifestyle listing, handler over service over the
  Postgres repository, answers HTTP 200 with an empty JSON array, while the MedicalHistory
  listing answers HTTP 404 with the message of the entry-not-found error. For an owner
  patient id that does not exist, both listings answer HTTP 404 with the message of the
  patient-not-found error.
\<close>

theorem list_of_owner_over_http:
  "(Atoi patient_id = Inr patientID
      \<and> repo_GetPatient (ls_patientRepo ls) patientID w = (Inr p, w1)
      \<and> lq (int32 patientID) w1 = (Inr [], w2)
    \<longrightarrow> LifestyleHandler_GetLifestyleEntries
          (LifestyleService_GetLifestyleEntries
             (ls\<lparr>ls_lifestyleRepo := (ls_lifestyleRepo ls)
                  \<lparr>repo_GetLifestyleEntries :=
                     LifestyleRepositoryImpl_GetLifestyleEntries lq\<rparr>\<rparr>))
          patient_id w
        = (\<lparr>status = 200, body = LifestyleEntries []\<rparr>, w2))
   \<and> (Atoi patient_id = Inr patientID
      \<and> repo_GetPatient (ls_patientRepo ls) patientID w = (Inl err, w1)
      \<and> errors_Is err ErrPatientNotFound
    \<longrightarrow> LifestyleHandler_GetLifestyleEntries (LifestyleService_GetLifestyleEntries ls)
          patient_id w
        = (\<lparr>status = 404, body = ErrorResponse ''patient not found''\<rparr>, w1))
   \<and> (Atoi patient_id = Inr patientID
      \<and> repo_GetPatient (ms_patientRepo ms) patientID w = (Inr p, w1)
      \<and> hq \<lparr>ni_Int32 = int32 patientID, ni_Valid = True\<rparr> w1 = (Inr [], w2)
    \<longrightarrow> MedicalHistoryHandler_GetMedicalHistoryEntries
          (MedicalHistoryService_GetMedicalHistoryEntries
             (ms\<lparr>ms_medicalHistoryRepo := (ms_medicalHistoryRepo ms)
                  \<lparr>repo_GetMedicalHistoryEntries :=
                     MedicalHistoryRepositoryImpl_GetMedicalHistoryEntries hq\<rparr>\<rparr>))
          patient_id w
        = (\<lparr>status = 404, body = ErrorResponse ''medical history entry not found''\<rparr>, w2))
   \<and> (Atoi patient_id = Inr patientID
      \<and> repo_GetPatient (ms_patientRepo ms) patientID w = (Inl err, w1)
      \<and> errors_Is err ErrPatientNotFound
    \<longrightarrow> MedicalHistoryHandler_GetMedicalHistoryEntries
          (MedicalHistoryService_GetMedicalHistoryEntries ms) patient_id w
        = (\<lparr>status = 404, body = ErrorResponse ''patient not found''\<rparr>, w1))"
  using LifestyleHandler_list_empty [of patient_id patientID ls w p w1 lq w2]
    LifestyleHandler_list_absent [of patient_id patientID ls w err w1]
    MedicalHistoryHandler_list_empty [of patient_id patientID ms w p w1 hq w2]
    MedicalHistoryHandler_list_absent [of patient_id patientID ms w err w1]
  by blast

text \<open>
  On the concrete system: patient 7 exists without entries, patient 8 does not exist.
\<close>

theorem list_of_owner_over_http_witness:
  "LifestyleHandler_GetLifestyleEntries
     (LifestyleService_GetLifestyleEntries
        ((lifestyleSvc ''3'')\<lparr>ls_lifestyleRepo := (ls_lifestyleRepo (lifestyleSvc ''3''))
           \<lparr>repo_GetLifestyleEntries :=
              LifestyleRepositoryImpl_GetLifestyleEntries memQ_GetLifestyleEntries\<rparr>\<rparr>))
     ''7'' world0
     = (\<lparr>status = 200, body = LifestyleEntries []\<rparr>, world0)
   \<and> LifestyleHandler_GetLifestyleEntries
       (LifestyleService_GetLifestyleEntries (lifestyleSvc ''3'')) ''8'' world0
     = (\<lparr>status = 404, body = ErrorResponse ''patient not found''\<rparr>, world0)
   \<and> MedicalHistoryHandler_GetMedicalHistoryEntries
       (MedicalHistoryService_GetMedicalHistoryEntries
          ((medicalHistorySvc ''3'')
             \<lparr>ms_medicalHistoryRepo := (ms_medicalHistoryRepo (medicalHistorySvc ''3''))
                \<lparr>repo_GetMedicalHistoryEntries :=
                   MedicalHistoryRepositoryImpl_GetMedicalHistoryEntries
                     memQ_GetMedicalHistoryEntries\<rparr>\<rparr>))
       ''7'' world0
     = (\<lparr>status = 404, body = ErrorResponse ''medical history entry not found''\<rparr>, world0)
   \<and> MedicalHistoryHandler_GetMedicalHistoryEntries
       (MedicalHistoryService_GetMedicalHistoryEntries (medicalHistorySvc ''3'')) ''8'' world0
     = (\<lparr>status = 404, body = ErrorResponse ''patient not found''\<rparr>, world0)"
proof -
  have a7: "Atoi ''7'' = Inr 7" and a8: "Atoi ''8'' = Inr 8"
    by code_simp+
  have g7: "repo_GetPatient (ls_patientRepo (lifestyleSvc ''3'')) 7 world0 = (Inr patient7, world0)"
    "repo_GetPatient (ms_patientRepo (medicalHistorySvc ''3'')) 7 world0 = (Inr patient7, world0)"
    by code_simp+
  have g8: "repo_GetPatient (ls_patientRepo (lifestyleSvc ''3'')) 8 world0
              = (Inl ErrPatientNotFound, world0)"
    "repo_GetPatient (ms_patientRepo (medicalHistorySvc ''3'')) 8 world0
              = (Inl ErrPatientNotFound, world0)"
    by code_simp+
  have q7: "memQ_GetLifestyleEntries (int32 7) world0 = (Inr [], world0)"
    "memQ_GetMedicalHistoryEntries \<lparr>ni_Int32 = int32 7, ni_Valid = True\<rparr> world0
       = (Inr [], world0)"
    by code_simp+
  have e: "errors_Is ErrPatientNotFound ErrPatientNotFound"
    by simp
  show ?thesis
    using a7 a8 g7 g8 q7 e
      list_of_owner_over_http [where patient_id = "''7''" and patientID = 7
        and ls = "lifestyleSvc ''3''" and ms = "medicalHistorySvc ''3''" and w = world0
        and ?w1.0 = world0 and ?w2.0 = world0 and p = patient7
        and lq = memQ_GetLifestyleEntries and hq = memQ_GetMedicalHistoryEntries]
      list_of_owner_over_http [where patient_id = "''8''" and patientID = 8
        and ls = "lifestyleSvc ''3''" and ms = "medicalHistorySvc ''3''" and w = world0
        and ?w1.0 = world0 and err = ErrPatientNotFound]
    by simp
qed

subsection \<open>A failure of the identity provider\<close>

lemma authorizeWith_provider_failure:
  assumes "Sprint_int patientID \<noteq> userID" and "GetUser userID w = (Inl err, w1)"
  shows "authorizeWith toBool GetUser userID patientID w = (toBool (False, Some err), w1)"
  using assms by (simp add: authorizeWith_def Authorize_def)

lemma UpdateLifestyleEntry_provider_failure:
  assumes "ls_validator ls (UpdateLifestylePayload req) = []"
    and "repo_GetLifestyleEntry (ls_lifestyleRepo ls) entryID w = (Inr e, w1)"
    and "Sprint_int (le_PatientID e) \<noteq> userID" and "GetUser userID w1 = (Inl err, w2)"
  shows "LifestyleService_UpdateLifestyleEntry
           (ls\<lparr>ls_authorize := authorizeWith toBool GetUser userID\<rparr>) entryID req w
         = (if toBool (False, Some err)
            then LifestyleService_UpdateLifestyleEntry
                   (ls\<lparr>ls_authorize := (\<lambda>patientID v. (True, w2))\<rparr>) entryID req w
            else (Inl ErrForbidden, w2))"
  using assms authorizeWith_provider_failure [of "le_PatientID e" userID GetUser w1 err w2 toBool]
  by (simp add: LifestyleService_UpdateLifestyleEntry_def)

lemma DeleteLifestyleEntry_provider_failure:
  assumes "repo_GetLifestyleEntry (ls_lifestyleRepo ls) entryID w = (Inr e, w1)"
    and "Sprint_int (le_PatientID e) \<noteq> userID" and "GetUser userID w1 = (Inl err, w2)"
  shows "LifestyleService_DeleteLifestyleEntry
           (ls\<lparr>ls_authorize := authorizeWith toBool GetUser userID\<rparr>) entryID w
         = (if toBool (False, Some err)
            then LifestyleService_DeleteLifestyleEntry
                   (ls\<lparr>ls_authorize := (\<lambda>patientID v. (True, w2))\<rparr>) entryID w
            else (Some ErrForbidden, w2))"
  using assms authorizeWith_provider_failure [of "le_PatientID e" userID GetUser w1 err w2 toBool]
  by (simp add: LifestyleService_DeleteLifestyleEntry_def)

lemma UpdateMedicalHistoryEntry_provider_failure:
  assumes "ms_validate ms (UpdateMedicalHistoryPayload req) = []"
    and "repo_GetMedicalHistoryEntry (ms_medicalHistoryRepo ms) entryID w = (Inr h, w1)"
    and "Sprint_int (mh_PatientID h) \<noteq> userID" and "GetUser userID w1 = (Inl err, w2)"
  shows "MedicalHistoryService_UpdateMedicalHistoryEntry
           (ms\<lparr>ms_authorize := authorizeWith toBool GetUser userID\<rparr>) entryID req w
         = (if toBool (False, Some err)
            then MedicalHistoryService_UpdateMedicalHistoryEntry
                   (ms\<lparr>ms_authorize := (\<lambda>patientID v. (True, w2))\<rparr>) entryID req w
            else (Inl ErrForbidden, w2))"
  using assms authorizeWith_provider_failure [of "mh_PatientID h" userID GetUser w1 err w2 toBool]
  by (simp add: MedicalHistoryService_UpdateMedicalHistoryEntry_def)

lemma DeleteMedicalHistoryEntry_provider_failure:
  assumes "repo_GetMedicalHistoryEntry (ms_medicalHistoryRepo ms) entryID w = (Inr h, w1)"
    and "Sprint_int (mh_PatientID h) \<noteq> userID" and "GetUser userID w1 = (Inl err, w2)"
  shows "MedicalHistoryService_DeleteMedicalHistoryEntry
           (ms\<lparr>ms_authorize := authorizeWith toBool GetUser userID\<rparr>) entryID w
         = (if toBool (False, Some err)
            then MedicalHistoryService_DeleteMedicalHistoryEntry
                   (ms\<lparr>ms_authorize := (\<lambda>patientID v. (True, w2))\<rparr>) entryID w
            else (Some ErrForbidden, w2))"
  using assms authorizeWith_provider_failure [of "mh_PatientID h" userID GetUser w1 err w2 toBool]
  by (simp add: MedicalHistoryService_DeleteMedicalHistoryEntry_def)

text \<open>
  Claim C2, as stated, fails on the services. On the concrete system the identity
  provider fails for user 4 and the gate returns false with the provider's error, while
  for user 3 it returns false without error, an ordinary denial. The services, which keep
  the boolean of the gate's result, answer both callers with the same \<open>ErrForbidden\<close>, for
  Update and for Delete, on both resources.
\<close>

theorem provider_failure_is_answered_as_forbidden:
  "Authorize memGetUser ''4'' 2 world0
     = ((False, Some (ExternalError ''clerk: user lookup failed'')), world0)
   \<and> Authorize memGetUser ''3'' 2 world0 = ((False, None), world0)
   \<and> LifestyleService_UpdateLifestyleEntry (lifestyleSvc ''4'') 1 emptyUpdateLifestyleRequest
        world0 = (Inl ErrForbidden, world0)
   \<and> LifestyleService_UpdateLifestyleEntry (lifestyleSvc ''3'') 1 emptyUpdateLifestyleRequest
        world0 = (Inl ErrForbidden, world0)
   \<and> LifestyleService_DeleteLifestyleEntry (lifestyleSvc ''4'') 1 world0
       = (Some ErrForbidden, world0)
   \<and> LifestyleService_DeleteLifestyleEntry (lifestyleSvc ''3'') 1 world0
       = (Some ErrForbidden, world0)
   \<and> MedicalHistoryService_UpdateMedicalHistoryEntry (medicalHistorySvc ''4'') 1
        emptyUpdateMedicalHistoryRequest world0 = (Inl ErrForbidden, world0)
   \<and> MedicalHistoryService_UpdateMedicalHistoryEntry (medicalHistorySvc ''3'') 1
        emptyUpdateMedicalHistoryRequest world0 = (Inl ErrForbidden, world0)
   \<and> MedicalHistoryService_DeleteMedicalHistoryEntry (medicalHistorySvc ''4'') 1 world0
       = (Some ErrForbidden, world0)
   \<and> MedicalHistoryService_DeleteMedicalHistoryEntry (medicalHistorySvc ''3'') 1 world0
       = (Some ErrForbidden, world0)"
  by code_simp

text \<open>
  Claim C2, amended. When the identity provider fails for a caller who is not the owner,
  the gate itself returns false together with the provider's error, which differs from
  the result of an ordinary denial (false, no error). The Lifestyle and MedicalHistory
  services take their authorization as a function that returns a boolean only. Whatever
  function \<open>toBool\<close> turns the gate's result into that boolean, Update and Delete have no
  outcome of their own for the failure: when \<open>toBool\<close> maps it to false they return
  \<open>ErrForbidden\<close>, the error of an ordinary denial, and call no mutating method; when it
  maps it to true they proceed exactly as an allowed call from the world the provider left.
\<close>

theorem provider_failure_reaches_services_as_boolean:
  "(Sprint_int patientID \<noteq> userID \<and> GetUser userID w = (Inl err, w1)
      \<longrightarrow> Authorize GetUser userID patientID w = ((False, Some err), w1)
          \<and> Authorize GetUser userID patientID w \<noteq> ((False, None), w1))
   \<and> (ls_validator ls (UpdateLifestylePayload lreq) = []
      \<and> repo_GetLifestyleEntry (ls_lifestyleRepo ls) entryID w = (Inr e, w1)
      \<and> Sprint_int (le_PatientID e) \<noteq> userID \<and> GetUser userID w1 = (Inl err, w2)
    \<longrightarrow> LifestyleService_UpdateLifestyleEntry
          (ls\<lparr>ls_authorize := authorizeWith toBool GetUser userID\<rparr>) entryID lreq w
        = (if toBool (False, Some err)
           then LifestyleService_UpdateLifestyleEntry
                  (ls\<lparr>ls_authorize := (\<lambda>patientID v. (True, w2))\<rparr>) entryID lreq w
           else (Inl ErrForbidden, w2)))
   \<and> (repo_GetLifestyleEntry (ls_lifestyleRepo ls) entryID w = (Inr e, w1)
      \<and> Sprint_int (le_PatientID e) \<noteq> userID \<and> GetUser userID w1 = (Inl err, w2)
    \<longrightarrow> LifestyleService_DeleteLifestyleEntry
          (ls\<lparr>ls_authorize := authorizeWith toBool GetUser userID\<rparr>) entryID w
        = (if toBool (False, Some err)
           then LifestyleService_DeleteLifestyleEntry
                  (ls\<lparr>ls_authorize := (\<lambda>patientID v. (True, w2))\<rparr>) entryID w
           else (Some ErrForbidden, w2)))
   \<and> (ms_validate ms (UpdateMedicalHistoryPayload hreq) = []
      \<and> repo_GetMedicalHistoryEntry (ms_medicalHistoryRepo ms) entryID w = (Inr h, w1)
      \<and> Sprint_int (mh_PatientID h) \<noteq> userID \<and> GetUser userID w1 = (Inl err, w2)
    \<longrightarrow> MedicalHistoryService_UpdateMedicalHistoryEntry
          (ms\<lparr>ms_authorize := authorizeWith toBool GetUser userID\<rparr>) entryID hreq w
        = (if toBool (False, Some err)
           then MedicalHistoryService_UpdateMedicalHistoryEntry
                  (ms\<lparr>ms_authorize := (\<lambda>patientID v. (True, w2))\<rparr>) entryID hreq w
           else (Inl ErrForbidden, w2)))
   \<and> (repo_GetMedicalHistoryEntry (ms_medicalHistoryRepo ms) entryID w = (Inr h, w1)
      \<and> Sprint_int (mh_PatientID h) \<noteq> userID \<and> GetUser userID w1 = (Inl err, w2)
    \<longrightarrow> MedicalHistoryService_DeleteMedicalHistoryEntry
          (ms\<lparr>ms_authorize := authorizeWith toBool GetUser userID\<rparr>) entryID w
        = (if toBool (False, Some err)
           then MedicalHistoryService_DeleteMedicalHistoryEntry
                  (ms\<lparr>ms_authorize := (\<lambda>patientID v. (True, w2))\<rparr>) entryID w
           else (Some ErrForbidden, w2)))"
proof -
  have g: "Sprint_int patientID \<noteq> userID \<and> GetUser userID w = (Inl err, w1)
      \<longrightarrow> Authorize GetUser userID patientID w = ((False, Some err), w1)
          \<and> Authorize GetUser userID patientID w \<noteq> ((False, None), w1)"
    by (simp add: Authorize_def)
  show ?thesis
    using g UpdateLifestyleEntry_provider_failure [of ls lreq entryID w e w1 userID GetUser err w2
        toBool]
      DeleteLifestyleEntry_provider_failure [of ls entryID w e w1 userID GetUser err w2 toBool]
      UpdateMedicalHistoryEntry_provider_failure [of ms hreq entryID w h w1 userID GetUser err w2
        toBool]
      DeleteMedicalHistoryEntry_provider_failure [of ms entryID w h w1 userID GetUser err w2 toBool]
    by blast
qed

text \<open>
  On the concrete system, for user 4, whom the identity provider does not know, with the
  boolean of the gate's result kept: the gate reports the provider's error, and the four
  operations on entry 1 of patient 2 return \<open>ErrForbidden\<close>.
\<close>

theorem provider_failure_reaches_services_as_boolean_witness:
  "Authorize memGetUser ''4'' 2 world0
     = ((False, Some (ExternalError ''clerk: user lookup failed'')), world0)
   \<and> LifestyleService_UpdateLifestyleEntry
        ((lifestyleSvc ''3'')\<lparr>ls_authorize := authorizeWith fst memGetUser ''4''\<rparr>) 1
        emptyUpdateLifestyleRequest world0 = (Inl ErrForbidden, world0)
   \<and> LifestyleService_DeleteLifestyleEntry
        ((lifestyleSvc ''3'')\<lparr>ls_authorize := authorizeWith fst memGetUser ''4''\<rparr>) 1 world0
       = (Some ErrForbidden, world0)
   \<and> MedicalHistoryService_UpdateMedicalHistoryEntry
        ((medicalHistorySvc ''3'')\<lparr>ms_authorize := authorizeWith fst memGetUser ''4''\<rparr>) 1
        emptyUpdateMedicalHistoryRequest world0 = (Inl ErrForbidden, world0)
   \<and> MedicalHistoryService_DeleteMedicalHistoryEntry
        ((medicalHistorySvc ''3'')\<lparr>ms_authorize := authorizeWith fst memGetUser ''4''\<rparr>) 1 world0
       = (Some ErrForbidden, world0)"
proof -
  have s: "Sprint_int 2 \<noteq> ''4''" "Sprint_int (le_PatientID entry1) \<noteq> ''4''"
    "Sprint_int (mh_PatientID hist1) \<noteq> ''4''"
    by code_simp+
  have g: "memGetUser ''4'' world0 = (Inl (ExternalError ''clerk: user lookup failed''), world0)"
    by code_simp
  have v: "ls_validator (lifestyleSvc ''3'') (UpdateLifestylePayload emptyUpdateLifestyleRequest)
             = []"
    "ms_validate (medicalHistorySvc ''3'')
       (UpdateMedicalHistoryPayload emptyUpdateMedicalHistoryRequest) = []"
    by code_simp+
  have l: "repo_GetLifestyleEntry (ls_lifestyleRepo (lifestyleSvc ''3'')) 1 world0
             = (Inr entry1, world0)"
    "repo_GetMedicalHistoryEntry (ms_medicalHistoryRepo (medicalHistorySvc ''3'')) 1 world0
             = (Inr hist1, world0)"
    by code_simp+
  show ?thesis
    using s g v l
      provider_failure_reaches_services_as_boolean [where patientID = 2 and userID = "''4''"
        and GetUser = memGetUser and w = world0 and ?w1.0 = world0 and ?w2.0 = world0
        and err = "ExternalError ''clerk: user lookup failed''"
        and ls = "lifestyleSvc ''3''" and ms = "medicalHistorySvc ''3''" and entryID = 1
        and e = entry1 and h = hist1 and lreq = emptyUpdateLifestyleRequest
        and hreq = emptyUpdateMedicalHistoryRequest and toBool = fst]
    by simp
qed

end
